theory Spec2Isabelle
  imports Main
begin

section \<open>JavaScript strings and \<open>parseInt\<close>\<close>

text \<open>
  The repository is one Express application in two variants, both in \<open>src/index.js\<close>:
  the first (lines 1-628, middlewares \<open>validateUrl\<close> and \<open>validateParams\<close>, the
  environment switch \<open>NODE_ENV === 'production'\<close>) and a second, more permissive one
  (lines 629-999, validation inlined in the handler). Definitions of the second variant
  carry the suffix \<open>_p\<close>.

  Strings are lists of 8-bit characters: the model covers query strings whose code units
  are below 256. Query values are strings (\<open>None\<close> is an absent key); the arrays and
  objects Express builds from repeated or bracketed keys are outside the model.
\<close>

text \<open>A code unit within a range of code units, as in the character class \<open>[a-z]\<close>.\<close>

definition charBetween :: "char \<Rightarrow> char \<Rightarrow> char \<Rightarrow> bool" where
  "charBetween lo hi c = ((of_char lo :: nat) \<le> of_char c \<and> (of_char c :: nat) \<le> of_char hi)"

definition lowerChar :: "char \<Rightarrow> char" where
  "lowerChar c =
     (if charBetween CHR ''A'' CHR ''Z'' c then char_of (of_char c + (32::nat)) else c)"

definition toLowerCase :: "string \<Rightarrow> string" where
  "toLowerCase s = map lowerChar s"

fun startsWith :: "string \<Rightarrow> string \<Rightarrow> bool" where
  "startsWith s [] = True"
| "startsWith [] (p # ps) = False"
| "startsWith (c # cs) (p # ps) = (c = p \<and> startsWith cs ps)"

text \<open>\<open>s.includes(p)\<close> (\<open>includes\<close> is a keyword of Isabelle): \<open>p\<close> occurs in \<open>s\<close> as a contiguous substring.\<close>

fun strIncludes :: "string \<Rightarrow> string \<Rightarrow> bool" where
  "strIncludes [] p = (p = [])"
| "strIncludes (c # cs) p = (startsWith (c # cs) p \<or> strIncludes cs p)"

text \<open>A case-insensitive regular expression that is a plain ASCII word, tested anywhere.\<close>

definition strIncludes_i :: "string \<Rightarrow> string \<Rightarrow> bool" where
  "strIncludes_i s p = strIncludes (toLowerCase s) (toLowerCase p)"

definition isDigit :: "char \<Rightarrow> bool" where
  "isDigit c = (charBetween CHR ''0'' CHR ''9'' c)"

definition isHexDigit :: "char \<Rightarrow> bool" where
  "isHexDigit c =
     (isDigit c \<or> (charBetween CHR ''a'' CHR ''f'' c) \<or> (charBetween CHR ''A'' CHR ''F'' c))"

definition digitVal :: "char \<Rightarrow> int" where
  "digitVal c =
     (if isDigit c then int (of_char c) - 48
      else if charBetween CHR ''a'' CHR ''f'' c then int (of_char c) - 87
      else int (of_char c) - 55)"

text \<open>
  The white space \<open>parseInt\<close> skips, among code units below 256: TAB, LF, VT, FF, CR,
  SP and NBSP.
\<close>

definition isWhiteSpace :: "char \<Rightarrow> bool" where
  "isWhiteSpace c = (c \<in> set [CHR 0x09, CHR 0x0A, CHR 0x0B, CHR 0x0C, CHR 0x0D, CHR 0x20, CHR 0xA0])"

definition radixValue :: "int \<Rightarrow> string \<Rightarrow> int" where
  "radixValue R z = foldl (\<lambda>a c. a * R + digitVal c) 0 z"

text \<open>
  \<open>parseInt(s)\<close> with no radix argument (ECMAScript, \<open>parseInt (string, radix)\<close>): leading
  white space is dropped, one sign is read, a prefix \<open>0x\<close> or \<open>0X\<close> switches to radix
  16, and the longest prefix of digits of the radix is the value; with no such digit the
  result is NaN (\<open>None\<close>). The value is kept exact: the double nearest to it compares
  with the bounds below (all exactly representable) as the integer does.
\<close>

definition parseInt :: "string \<Rightarrow> int option" where
  "parseInt s =
     (let S = dropWhile isWhiteSpace s;
          sign = (if startsWith S ''-'' then - 1 else (1::int));
          S1 = (if startsWith S ''+'' \<or> startsWith S ''-'' then tl S else S);
          hex = (startsWith S1 ''0x'' \<or> startsWith S1 ''0X'');
          S2 = (if hex then drop 2 S1 else S1);
          Z = (if hex then takeWhile isHexDigit S2 else takeWhile isDigit S2)
      in if Z = [] then None else Some (sign * radixValue (if hex then 16 else 10) Z))"

text \<open>\<open>isNaN(n) || n < lo || n > hi\<close>, and the same test without \<open>isNaN\<close>.\<close>

definition outOfRange :: "int option \<Rightarrow> int \<Rightarrow> int \<Rightarrow> bool" where
  "outOfRange n lo hi = (case n of None \<Rightarrow> True | Some v \<Rightarrow> v < lo \<or> v > hi)"

definition outOfRange_p :: "int option \<Rightarrow> int \<Rightarrow> int \<Rightarrow> bool" where
  "outOfRange_p n lo hi = (case n of None \<Rightarrow> False | Some v \<Rightarrow> v < lo \<or> v > hi)"

section \<open>Requests and replies\<close>

text \<open>\<open>req.query\<close>, one field for each key the code reads.\<close>

record query =
  q_url :: "string option"
  q_width :: "string option"
  q_height :: "string option"
  q_quality :: "string option"
  q_delay :: "string option"
  q_format :: "string option"
  q_fullPage :: "string option"
  q_mobile :: "string option"
  q_darkMode :: "string option"
  q_selector :: "string option"

text \<open>
  A JSON reply: the status code and the fields \<open>error\<close> and \<open>message\<close> of the body
  (\<open>example\<close>, \<open>documentation\<close>, \<open>provided\<close>, \<open>url\<close>, the times and the request id
  are left out).
\<close>

record json_reply =
  status :: nat
  error :: string
  message :: "string option"

text \<open>
  What \<open>new URL(url)\<close> yields, as far as the validators read it. The constructor is
  the platform's (the WHATWG URL parser), not code of this repository: the validators
  take it as the parameter \<open>newURL\<close>, where \<open>Inl m\<close> is a thrown \<open>TypeError\<close> with
  message \<open>m\<close>.
\<close>

record url_obj =
  protocol :: string
  hostname :: string

type_synonym url_parser = "string \<Rightarrow> string + url_obj"

section \<open>URL validation\<close>

text \<open>
  \<open>/^(10\.|172\.(1[6-9]|2[0-9]|3[0-1])\.|192\.168\.|127\.|169\.254\.|::1$|localhost$)/\<close>
\<close>

definition privateIpRegex :: "string \<Rightarrow> bool" where
  "privateIpRegex h =
     (startsWith h ''10.''
      \<or> (startsWith h ''172.'' \<and>
          (case drop 4 h of
             a # b # c # _ \<Rightarrow>
               ((a = CHR ''1'' \<and> charBetween CHR ''6'' CHR ''9'' b)
                \<or> (a = CHR ''2'' \<and> charBetween CHR ''0'' CHR ''9'' b)
                \<or> (a = CHR ''3'' \<and> charBetween CHR ''0'' CHR ''1'' b))
               \<and> c = CHR ''.''
           | _ \<Rightarrow> False))
      \<or> startsWith h ''192.168.''
      \<or> startsWith h ''127.''
      \<or> startsWith h ''169.254.''
      \<or> h = ''::1''
      \<or> h = ''localhost'')"

definition suspiciousPatterns :: "string list" where
  "suspiciousPatterns = [''file://'', ''javascript:'', ''data:'', ''vbscript:'']"

text \<open>
  The body of the \<open>try\<close> of \<open>validateUrl\<close> (first variant): \<open>Inl m\<close> is the message of
  the thrown error, \<open>Inr ()\<close> is reaching \<open>next()\<close>.
\<close>

definition validateUrl_try :: "url_parser \<Rightarrow> bool \<Rightarrow> string \<Rightarrow> string + unit" where
  "validateUrl_try newURL production u =
     (case newURL u of
        Inl m \<Rightarrow> Inl m
      | Inr urlObj \<Rightarrow>
          if protocol urlObj \<notin> set [''http:'', ''https:'']
          then Inl ''Only HTTP and HTTPS protocols are supported''
          else if production \<and> privateIpRegex (toLowerCase (hostname urlObj))
          then Inl ''Private and localhost URLs are not allowed''
          else if list_ex (\<lambda>pattern. strIncludes_i u pattern) suspiciousPatterns
          then Inl ''Suspicious URL pattern detected''
          else Inr ())"

definition validateUrl :: "url_parser \<Rightarrow> bool \<Rightarrow> query \<Rightarrow> json_reply + string" where
  "validateUrl newURL production q =
     (case q_url q of
        None \<Rightarrow> Inl \<lparr>status = 400, error = ''URL parameter is required'', message = None\<rparr>
      | Some u \<Rightarrow>
          if u = [] then Inl \<lparr>status = 400, error = ''URL parameter is required'', message = None\<rparr>
          else (case validateUrl_try newURL production u of
                  Inl m \<Rightarrow> Inl \<lparr>status = 400, error = ''Invalid URL'', message = Some m\<rparr>
                | Inr _ \<Rightarrow> Inr u))"

text \<open>\<open>validateUrl\<close> of the second variant: parse and protocol only.\<close>

definition validateUrl_p :: "url_parser \<Rightarrow> query \<Rightarrow> json_reply + string" where
  "validateUrl_p newURL q =
     (case q_url q of
        None \<Rightarrow> Inl \<lparr>status = 400, error = ''URL parameter is required'', message = None\<rparr>
      | Some u \<Rightarrow>
          if u = [] then Inl \<lparr>status = 400, error = ''URL parameter is required'', message = None\<rparr>
          else (case newURL u of
                  Inl m \<Rightarrow>
                    Inl \<lparr>status = 400,
                         error = ''Invalid URL format. Please provide a valid HTTP/HTTPS URL.'',
                         message = None\<rparr>
                | Inr urlObj \<Rightarrow>
                    if protocol urlObj \<notin> set [''http:'', ''https:'']
                    then Inl \<lparr>status = 400,
                              error = ''Invalid URL format. Please provide a valid HTTP/HTTPS URL.'',
                              message = None\<rparr>
                    else Inr u))"

text \<open>
  A small executable stand-in for the platform parser, for URLs of the two plain shapes
  \<open>scheme:rest\<close> and \<open>http(s)://host/path\<close> with a lower-case ASCII host and neither
  credentials, port nor IPv6 literal. It is used only to evaluate the validators at
  concrete URLs.
\<close>

definition isAlpha :: "char \<Rightarrow> bool" where
  "isAlpha c = ((charBetween CHR ''a'' CHR ''z'' c) \<or> (charBetween CHR ''A'' CHR ''Z'' c))"

definition isSchemeChar :: "char \<Rightarrow> bool" where
  "isSchemeChar c = (isAlpha c \<or> isDigit c \<or> c \<in> set [CHR ''+'', CHR ''-'', CHR ''.''])"

definition plainURL :: url_parser where
  "plainURL u =
     (let scheme = takeWhile (\<lambda>c. c \<noteq> CHR '':'') u;
          rest = drop (length scheme + 1) u
      in if scheme \<noteq> [] \<and> isAlpha (hd scheme) \<and> list_all isSchemeChar scheme
            \<and> length scheme < length u
         then (if toLowerCase scheme \<in> set [''http'', ''https'']
               then (let host = takeWhile (\<lambda>c. c \<notin> set [CHR ''/'', CHR 0x5C, CHR ''?'', CHR ''#'', CHR '':''])
                                  (dropWhile (\<lambda>c. c \<in> set [CHR ''/'', CHR 0x5C]) rest)
                     in if host = [] then Inl ''Invalid URL''
                        else Inr \<lparr>protocol = toLowerCase scheme @ '':'',
                                  hostname = toLowerCase host\<rparr>)
               else Inr \<lparr>protocol = toLowerCase scheme @ '':'', hostname = []\<rparr>)
         else Inl ''Invalid URL'')"

section \<open>Parameter validation\<close>

text \<open>\<open>req.validatedParams\<close>.\<close>

record params =
  width :: int
  height :: int
  quality :: int
  delay :: int
  format :: string
  fullPage :: bool
  mobile :: bool
  darkMode :: bool

text \<open>A destructuring default: it applies when the key is absent.\<close>

definition orDefault :: "string option \<Rightarrow> string \<Rightarrow> string" where
  "orDefault v d = (case v of None \<Rightarrow> d | Some s \<Rightarrow> s)"

definition validBooleans :: "string list" where
  "validBooleans = [''true'', ''false'']"

text \<open>
  The body of the \<open>try\<close> of \<open>validateParams\<close> (first variant), in the order of the source;
  \<open>Inl m\<close> is the message of the thrown error. A number that passed its range test is
  not NaN, so \<open>the\<close> is applied to \<open>Some\<close> values only.
\<close>

definition validateParams_try :: "query \<Rightarrow> string + params" where
  "validateParams_try q =
     (let widthNum = parseInt (orDefault (q_width q) ''1920'');
          heightNum = parseInt (orDefault (q_height q) ''1080'');
          qualityNum = parseInt (orDefault (q_quality q) ''80'');
          delayNum = parseInt (orDefault (q_delay q) ''0'');
          fmt = orDefault (q_format q) ''png'';
          fp = orDefault (q_fullPage q) ''false'';
          mob = orDefault (q_mobile q) ''false'';
          dark = orDefault (q_darkMode q) ''false''
      in if outOfRange widthNum 100 1920
         then Inl ''Width must be between 100 and 1920 pixels''
         else if outOfRange heightNum 100 1080
         then Inl ''Height must be between 100 and 1080 pixels''
         else if toLowerCase fmt \<notin> set [''png'', ''jpeg'', ''webp'']
         then Inl ''Format must be png, jpeg, or webp''
         else if outOfRange qualityNum 1 100
         then Inl ''Quality must be between 1 and 100''
         else if outOfRange delayNum 0 5000
         then Inl ''Delay must be between 0 and 5000 milliseconds''
         else if toLowerCase fp \<notin> set validBooleans
         then Inl ''fullPage must be true or false''
         else if toLowerCase mob \<notin> set validBooleans
         then Inl ''mobile must be true or false''
         else if toLowerCase dark \<notin> set validBooleans
         then Inl ''darkMode must be true or false''
         else Inr \<lparr>width = the widthNum, height = the heightNum,
                   quality = the qualityNum, delay = the delayNum,
                   format = toLowerCase fmt,
                   fullPage = (toLowerCase fp = ''true''),
                   mobile = (toLowerCase mob = ''true''),
                   darkMode = (toLowerCase dark = ''true'')\<rparr>)"

definition validateParams :: "query \<Rightarrow> json_reply + params" where
  "validateParams q =
     (case validateParams_try q of
        Inl m \<Rightarrow> Inl \<lparr>status = 400, error = ''Invalid parameters'', message = Some m\<rparr>
      | Inr p \<Rightarrow> Inr p)"

section \<open>The browser as an environment\<close>

text \<open>
  Puppeteer and the browser are outside the repository. Each awaited call of the handlers
  is an event of a trace, and an environment gives the outcome of every call: \<open>Inr v\<close>
  when the promise resolves with \<open>v\<close>, \<open>Inl m\<close> when it rejects with an error whose
  message is \<open>m\<close>. A JavaScript number is an \<open>int option\<close>, \<open>None\<close> being NaN.
\<close>

type_synonym 'a result = "string + 'a"

type_synonym number = "int option"

type_synonym image = string

record viewport =
  vp_width :: number
  vp_height :: number
  isMobile :: bool
  deviceScaleFactor :: nat
  hasTouch :: "bool option"

record goto_opts =
  waitUntil :: "string list"
  timeout :: nat

text \<open>
  The options object of a screenshot; \<open>None\<close> is a key the object does not have.
  \<open>clipNull\<close> tells \<open>clip: null\<close> from \<open>clip: undefined\<close>.
\<close>

record shot_opts =
  shot_type :: string
  shot_fullPage :: bool
  omitBackground :: "bool option"
  captureBeyondViewport :: "bool option"
  clipNull :: bool
  shot_quality :: "number option"

datatype event =
    Launch
  | NewPage
  | SetDefaultTimeout nat
  | SetDefaultNavigationTimeout nat
  | SetViewport viewport
  | SetUserAgent string
  | EmulateDarkScheme
  | SetRequestInterception
  | OnRequest
  | Goto string goto_opts
  | WaitForTimeout number
  | Evaluate
  | WaitForSelector string nat
  | QuerySelector string
  | ElementScreenshot shot_opts
  | PageScreenshot shot_opts
  | PageClose
  | BrowserClose

text \<open>
  \<open>launchResult\<close> is how \<open>getBrowser()\<close> settles and \<open>launchLate\<close> whether it settles
  only after the 10 s timer of the launch race. \<open>querySelector\<close> is \<open>page.$\<close>:
  \<open>Inr False\<close> is \<open>null\<close>. \<open>headersSent\<close> says that the 25 s timer of
  \<open>timeoutMiddleware\<close> has replied before the handler comes to reply.
\<close>

record env =
  launchLate :: bool
  launchResult :: "unit result"
  newPage :: "unit result"
  setViewport :: "viewport \<Rightarrow> unit result"
  setUserAgent :: "unit result"
  emulateMediaFeatures :: "unit result"
  setRequestInterception :: "unit result"
  goto :: "string \<Rightarrow> goto_opts \<Rightarrow> unit result"
  waitForTimeout :: "unit result"
  evaluate :: "unit result"
  waitForSelector :: "string \<Rightarrow> unit result"
  querySelector :: "string \<Rightarrow> bool result"
  elementScreenshot :: "shot_opts \<Rightarrow> image result"
  pageScreenshot :: "shot_opts \<Rightarrow> image result"
  pageClose :: "unit result"
  browserClose :: "unit result"
  headersSent :: bool

text \<open>
  The handler's local state: the trace so far and whether the variables \<open>browser\<close> and
  \<open>page\<close> are set (they start as \<open>null\<close>).
\<close>

record state =
  events :: "event list"
  browser :: bool
  page :: bool

type_synonym 'a act = "state \<Rightarrow> 'a result \<times> state"

definition ret :: "'a \<Rightarrow> 'a act" where
  "ret x = (\<lambda>s. (Inr x, s))"

definition throwError :: "string \<Rightarrow> 'a act" where
  "throwError m = (\<lambda>s. (Inl m, s))"

definition andThen :: "'a act \<Rightarrow> ('a \<Rightarrow> 'b act) \<Rightarrow> 'b act" where
  "andThen m f = (\<lambda>s. case m s of (Inl e, s') \<Rightarrow> (Inl e, s') | (Inr x, s') \<Rightarrow> f x s')"

definition tryCatch :: "'a act \<Rightarrow> (string \<Rightarrow> 'a act) \<Rightarrow> 'a act" where
  "tryCatch m h = (\<lambda>s. case m s of (Inl e, s') \<Rightarrow> h e s' | (Inr x, s') \<Rightarrow> (Inr x, s'))"

definition awaitCall :: "event \<Rightarrow> 'a result \<Rightarrow> 'a act" where
  "awaitCall ev r = (\<lambda>s. (r, s\<lparr>events := events s @ [ev]\<rparr>))"

definition whenTrue :: "bool \<Rightarrow> unit act \<Rightarrow> unit act" where
  "whenTrue b m = (if b then m else ret ())"

section \<open>The request-interception handler\<close>

record request =
  resourceType :: string
  req_url :: string

datatype decision = Abort | Continue

definition blockedDomains :: "string list" where
  "blockedDomains =
     [''google-analytics.com'', ''googletagmanager.com'', ''facebook.com'',
      ''doubleclick.net'', ''googlesyndication.com'']"

definition onRequest :: "request \<Rightarrow> decision" where
  "onRequest r =
     (if resourceType r \<in> set [''font'', ''media'']
         \<or> list_ex (\<lambda>domain. strIncludes (req_url r) domain) blockedDomains
      then Abort else Continue)"

section \<open>The screenshot handler, first variant\<close>

definition dq :: string where
  "dq = [CHR 0x22]"

definition initial :: state where
  "initial = \<lparr>events = [], browser = False, page = False\<rparr>"

text \<open>
  \<open>browser = await Promise.race([browserPromise, timeoutPromise])\<close>: the variable is set
  only when the launch settles first and resolves.
\<close>

definition launchRace :: "env \<Rightarrow> unit act" where
  "launchRace e =
     andThen (awaitCall Launch
                (if launchLate e then Inl ''Browser launch timeout'' else launchResult e))
       (\<lambda>_ s. (Inr (), s\<lparr>browser := True\<rparr>))"

definition openPage :: "env \<Rightarrow> unit act" where
  "openPage e = andThen (awaitCall NewPage (newPage e)) (\<lambda>_ s. (Inr (), s\<lparr>page := True\<rparr>))"

definition mobileUserAgent :: string where
  "mobileUserAgent = ''Mozilla/5.0 (iPhone; CPU iPhone OS 15_0 like Mac OS X) AppleWebKit/605.1.15 (KHTML, like Gecko) Version/15.0 Mobile/15E148 Safari/604.1''"

definition desktopUserAgent :: string where
  "desktopUserAgent = ''Mozilla/5.0 (Windows NT 10.0; Win64; x64) AppleWebKit/537.36 (KHTML, like Gecko) Chrome/120.0.0.0 Safari/537.36''"

definition viewportOf :: "params \<Rightarrow> viewport" where
  "viewportOf p =
     \<lparr>vp_width = Some (width p), vp_height = Some (height p), isMobile = mobile p,
      deviceScaleFactor = (if mobile p then 2 else 1), hasTouch = Some (mobile p)\<rparr>"

definition configure :: "env \<Rightarrow> params \<Rightarrow> unit act" where
  "configure e p =
     andThen (awaitCall (SetDefaultTimeout 15000) (Inr ())) (\<lambda>_.
     andThen (awaitCall (SetDefaultNavigationTimeout 15000) (Inr ())) (\<lambda>_.
     andThen (awaitCall (SetViewport (viewportOf p)) (setViewport e (viewportOf p))) (\<lambda>_.
     andThen (awaitCall (SetUserAgent (if mobile p then mobileUserAgent else desktopUserAgent))
                (setUserAgent e)) (\<lambda>_.
     andThen (whenTrue (darkMode p) (awaitCall EmulateDarkScheme (emulateMediaFeatures e))) (\<lambda>_.
     andThen (awaitCall SetRequestInterception (setRequestInterception e)) (\<lambda>_.
     awaitCall OnRequest (Inr ())))))))"

definition primaryOpts :: goto_opts where
  "primaryOpts = \<lparr>waitUntil = [''domcontentloaded'', ''networkidle2''], timeout = 15000\<rparr>"

definition fallbackOpts :: goto_opts where
  "fallbackOpts = \<lparr>waitUntil = [''domcontentloaded''], timeout = 10000\<rparr>"

definition navigate :: "env \<Rightarrow> string \<Rightarrow> unit act" where
  "navigate e u =
     tryCatch (awaitCall (Goto u primaryOpts) (goto e u primaryOpts))
       (\<lambda>navigationError. awaitCall (Goto u fallbackOpts) (goto e u fallbackOpts))"

definition settle :: "env \<Rightarrow> params \<Rightarrow> unit act" where
  "settle e p =
     andThen (whenTrue (delay p > 0) (awaitCall (WaitForTimeout (Some (delay p))) (waitForTimeout e)))
       (\<lambda>_. awaitCall Evaluate (evaluate e))"

definition screenshotOptions :: "params \<Rightarrow> shot_opts" where
  "screenshotOptions p =
     \<lparr>shot_type = format p,
      shot_fullPage = fullPage p,
      omitBackground = Some (format p = ''png''),
      captureBeyondViewport = Some (fullPage p),
      clipNull = True,
      shot_quality = (if format p \<in> set [''jpeg'', ''webp''] then Some (Some (quality p)) else None)\<rparr>"

text \<open>\<open>if (selector)\<close>: an absent and an empty selector are both falsy.\<close>

definition truthy :: "string option \<Rightarrow> bool" where
  "truthy v = (case v of None \<Rightarrow> False | Some s \<Rightarrow> s \<noteq> [])"

text \<open>
  The two template strings of the selector branch:
  \<^verbatim>\<open>Element with selector "${selector}" not found\<close> and
  \<^verbatim>\<open>Failed to find or screenshot element "${selector}": ${selectorError.message}\<close>.
\<close>

definition notFound :: "string \<Rightarrow> string" where
  "notFound sel = ''Element with selector '' @ dq @ sel @ dq @ '' not found''"

definition wrapped :: "string \<Rightarrow> string \<Rightarrow> string" where
  "wrapped sel m = ''Failed to find or screenshot element '' @ dq @ sel @ dq @ '': '' @ m"

definition capture :: "env \<Rightarrow> shot_opts \<Rightarrow> string option \<Rightarrow> image act" where
  "capture e opts selector =
     (if truthy selector
      then (let sel = the selector in
        tryCatch
          (andThen (awaitCall (WaitForSelector sel 5000) (waitForSelector e sel)) (\<lambda>_.
           andThen (awaitCall (QuerySelector sel) (querySelector e sel)) (\<lambda>element.
             if \<not> element
             then throwError (notFound sel)
             else awaitCall (ElementScreenshot opts) (elementScreenshot e opts))))
          (\<lambda>m. throwError (wrapped sel m)))
      else awaitCall (PageScreenshot opts) (pageScreenshot e opts))"

text \<open>
  A header value is refused when it holds a character outside
  \<^verbatim>\<open>[\t\x20-\x7e\x80-\xff]\<close>: among code units below 256, a control character other
  than TAB, or DEL.
\<close>

definition validHeaderChar :: "char \<Rightarrow> bool" where
  "validHeaderChar c =
     (c = CHR 0x09 \<or> (charBetween CHR 0x20 CHR 0xFF c \<and> c \<noteq> CHR 0x7F))"

definition validHeaderValue :: "string \<Rightarrow> bool" where
  "validHeaderValue v = list_all validHeaderChar v"

text \<open>The message of the error thrown for a refused value of \<open>X-Screenshot-URL\<close>.\<close>

definition invalidHeader :: string where
  "invalidHeader = ''Invalid character in header content ['' @ dq @ ''X-Screenshot-URL'' @ dq @ '']''"

text \<open>
  \<open>res.set(headers)\<close> throws when the reply has already been sent, and when a header
  value is refused. The headers are built from the validated format and dimensions, the
  length of the image, the times, and the raw URL in \<open>X-Screenshot-URL\<close>: the URL
  is the one value that can be refused. The thrown error goes to the \<open>catch\<close> block.
\<close>

definition respond :: "env \<Rightarrow> string \<Rightarrow> image \<Rightarrow> image act" where
  "respond e u shot =
     (if headersSent e then throwError ''Cannot set headers after they are sent to the client''
      else if validHeaderValue u then ret shot
      else throwError invalidHeader)"

definition tryBody :: "env \<Rightarrow> string \<Rightarrow> params \<Rightarrow> string option \<Rightarrow> image act" where
  "tryBody e u p selector =
     andThen (launchRace e) (\<lambda>_.
     andThen (openPage e) (\<lambda>_.
     andThen (configure e p) (\<lambda>_.
     andThen (navigate e u) (\<lambda>_.
     andThen (settle e p) (\<lambda>_.
     andThen (capture e (screenshotOptions p) selector) (\<lambda>shot.
     respond e u shot))))))"

text \<open>The classifier of the \<open>catch\<close> block: status code and \<open>errorMessage\<close>.\<close>

definition classify :: "string \<Rightarrow> nat \<times> string" where
  "classify m =
     (if strIncludes m ''net::ERR_NAME_NOT_RESOLVED'' then (400, ''Website not found or unreachable'')
      else if strIncludes m ''net::ERR_CONNECTION_REFUSED''
      then (400, ''Connection refused by target website'')
      else if strIncludes m ''Navigation timeout'' \<or> strIncludes m ''timeout''
      then (408, ''Website took too long to load'')
      else if strIncludes m ''ERR_BLOCKED_BY_CLIENT'' then (400, ''Request blocked by target website'')
      else if strIncludes m ''ERR_TOO_MANY_REDIRECTS'' then (400, ''Too many redirects'')
      else if strIncludes m ''Element'' \<and> strIncludes m ''not found'' then (400, m)
      else (500, ''Failed to capture screenshot''))"

text \<open>
  The \<open>finally\<close> block: \<open>browser.close()\<close> comes after \<open>page.close()\<close> in one \<open>try\<close>,
  whose \<open>catch\<close> only logs.
\<close>

definition cleanup :: "env \<Rightarrow> state \<Rightarrow> state" where
  "cleanup e s =
     snd (tryCatch
            (andThen (whenTrue (page s) (awaitCall PageClose (pageClose e))) (\<lambda>_.
             whenTrue (browser s) (awaitCall BrowserClose (browserClose e))))
            (\<lambda>cleanupError. ret ()) s)"

datatype reply = Json json_reply | Image string image

text \<open>
  One run of a handler: what the handler itself sent (\<open>None\<close> when it sent nothing
  because the reply had already gone out) and the trace of its calls.
\<close>

record run =
  sent :: "reply option"
  trace :: "event list"

definition handler :: "env \<Rightarrow> string \<Rightarrow> params \<Rightarrow> string option \<Rightarrow> run" where
  "handler e u p selector =
     (case tryBody e u p selector initial of
        (Inr shot, s) \<Rightarrow>
          \<lparr>sent = Some (Image (''image/'' @ format p) shot), trace = events (cleanup e s)\<rparr>
      | (Inl m, s) \<Rightarrow>
          \<lparr>sent = (if headersSent e then None
                   else Some (Json \<lparr>status = fst (classify m), error = snd (classify m),
                                    message = Some m\<rparr>)),
           trace = events (cleanup e s)\<rparr>)"

text \<open>
  The route \<open>/screenshot\<close>: \<open>validateUrl\<close>, \<open>validateParams\<close>, then the handler (the rate
  limiters, which come first, are taken to admit the request).
\<close>

definition screenshotRoute :: "url_parser \<Rightarrow> bool \<Rightarrow> env \<Rightarrow> query \<Rightarrow> run" where
  "screenshotRoute newURL production e q =
     (case validateUrl newURL production q of
        Inl r \<Rightarrow> \<lparr>sent = Some (Json r), trace = []\<rparr>
      | Inr u \<Rightarrow>
          (case validateParams q of
             Inl r \<Rightarrow> \<lparr>sent = Some (Json r), trace = []\<rparr>
           | Inr p \<Rightarrow> handler e u p (q_selector q)))"

section \<open>The screenshot handler, second variant\<close>

text \<open>
  The numbers of the inline validation: none is tested with \<open>isNaN\<close>, so each may be
  NaN after the range tests.
\<close>

record nums =
  widthNum :: number
  heightNum :: number
  qualityNum :: number
  delayNum :: number

definition validate_p :: "query \<Rightarrow> json_reply + nums" where
  "validate_p q =
     (let widthNum = parseInt (orDefault (q_width q) ''1920'');
          heightNum = parseInt (orDefault (q_height q) ''1080'');
          qualityNum = parseInt (orDefault (q_quality q) ''80'');
          delayNum = parseInt (orDefault (q_delay q) ''0'')
      in if outOfRange_p widthNum 100 3840
         then Inl \<lparr>status = 400, error = ''Width must be between 100 and 3840 pixels'',
                   message = None\<rparr>
         else if outOfRange_p heightNum 100 2160
         then Inl \<lparr>status = 400, error = ''Height must be between 100 and 2160 pixels'',
                   message = None\<rparr>
         else if orDefault (q_format q) ''png'' \<notin> set [''png'', ''jpeg'', ''webp'']
         then Inl \<lparr>status = 400, error = ''Format must be png, jpeg, or webp'', message = None\<rparr>
         else if outOfRange_p qualityNum 1 100
         then Inl \<lparr>status = 400, error = ''Quality must be between 1 and 100'', message = None\<rparr>
         else if outOfRange_p delayNum 0 10000
         then Inl \<lparr>status = 400, error = ''Delay must be between 0 and 10000 milliseconds'',
                   message = None\<rparr>
         else Inr \<lparr>widthNum = widthNum, heightNum = heightNum,
                   qualityNum = qualityNum, delayNum = delayNum\<rparr>)"

definition mobileUserAgent_p :: string where
  "mobileUserAgent_p = ''Mozilla/5.0 (iPhone; CPU iPhone OS 14_7_1 like Mac OS X) AppleWebKit/605.1.15 (KHTML, like Gecko) Version/14.1.2 Mobile/15E148 Safari/604.1''"

definition desktopUserAgent_p :: string where
  "desktopUserAgent_p = ''Mozilla/5.0 (Windows NT 10.0; Win64; x64) AppleWebKit/537.36 (KHTML, like Gecko) Chrome/91.0.4472.124 Safari/537.36''"

definition viewportOf_p :: "query \<Rightarrow> nums \<Rightarrow> viewport" where
  "viewportOf_p q n =
     \<lparr>vp_width = widthNum n, vp_height = heightNum n,
      isMobile = (orDefault (q_mobile q) ''false'' = ''true''),
      deviceScaleFactor = (if orDefault (q_mobile q) ''false'' = ''true'' then 2 else 1),
      hasTouch = None\<rparr>"

definition launch_p :: "env \<Rightarrow> unit act" where
  "launch_p e = andThen (awaitCall Launch (launchResult e)) (\<lambda>_ s. (Inr (), s\<lparr>browser := True\<rparr>))"

definition configure_p :: "env \<Rightarrow> query \<Rightarrow> nums \<Rightarrow> unit act" where
  "configure_p e q n =
     andThen (awaitCall (SetViewport (viewportOf_p q n)) (setViewport e (viewportOf_p q n))) (\<lambda>_.
     andThen (whenTrue (orDefault (q_darkMode q) ''false'' = ''true'')
                (awaitCall EmulateDarkScheme (emulateMediaFeatures e))) (\<lambda>_.
     awaitCall (SetUserAgent (if orDefault (q_mobile q) ''false'' = ''true''
                              then mobileUserAgent_p else desktopUserAgent_p))
       (setUserAgent e)))"

definition gotoOpts_p :: goto_opts where
  "gotoOpts_p = \<lparr>waitUntil = [''networkidle2''], timeout = 30000\<rparr>"

definition navigate_p :: "env \<Rightarrow> string \<Rightarrow> unit act" where
  "navigate_p e u = awaitCall (Goto u gotoOpts_p) (goto e u gotoOpts_p)"

definition positive :: "number \<Rightarrow> bool" where
  "positive n = (case n of None \<Rightarrow> False | Some v \<Rightarrow> v > 0)"

definition settle_p :: "env \<Rightarrow> nums \<Rightarrow> unit act" where
  "settle_p e n = whenTrue (positive (delayNum n)) (awaitCall (WaitForTimeout (delayNum n)) (waitForTimeout e))"

definition screenshotOptions_p :: "query \<Rightarrow> nums \<Rightarrow> shot_opts" where
  "screenshotOptions_p q n =
     \<lparr>shot_type = orDefault (q_format q) ''png'',
      shot_fullPage = (orDefault (q_fullPage q) ''false'' = ''true''),
      omitBackground = None,
      captureBeyondViewport = None,
      clipNull = truthy (q_selector q),
      shot_quality = (if orDefault (q_format q) ''png'' = ''jpeg''
                         \<or> orDefault (q_format q) ''png'' = ''webp''
                      then Some (qualityNum n) else None)\<rparr>"

definition capture_p :: "env \<Rightarrow> shot_opts \<Rightarrow> string option \<Rightarrow> image act" where
  "capture_p e opts selector =
     (if truthy selector
      then (let sel = the selector in
        andThen (awaitCall (QuerySelector sel) (querySelector e sel)) (\<lambda>element.
          if \<not> element
          then throwError (notFound sel)
          else awaitCall (ElementScreenshot opts) (elementScreenshot e opts)))
      else awaitCall (PageScreenshot opts) (pageScreenshot e opts))"

text \<open>
  \<open>res.set({...})\<close> of the second variant, inside the \<open>try\<close>: it copies the raw URL
  into \<open>X-Screenshot-URL\<close> too and throws when that value is refused. No other
  middleware of this variant replies, so the headers are never sent before.
\<close>

definition respond_p :: "string \<Rightarrow> image \<Rightarrow> image act" where
  "respond_p u shot =
     (if validHeaderValue u then ret shot
      else throwError invalidHeader)"

definition tryBody_p :: "env \<Rightarrow> string \<Rightarrow> query \<Rightarrow> nums \<Rightarrow> image act" where
  "tryBody_p e u q n =
     andThen (launch_p e) (\<lambda>_.
     andThen (awaitCall NewPage (newPage e)) (\<lambda>_.
     andThen (configure_p e q n) (\<lambda>_.
     andThen (navigate_p e u) (\<lambda>_.
     andThen (settle_p e n) (\<lambda>_.
     andThen (capture_p e (screenshotOptions_p q n) (q_selector q)) (\<lambda>shot.
     respond_p u shot))))))"

definition classify_p :: "string \<Rightarrow> json_reply" where
  "classify_p m =
     (if strIncludes m ''net::ERR_NAME_NOT_RESOLVED''
      then \<lparr>status = 400, error = ''Website not found or unreachable'', message = None\<rparr>
      else if strIncludes m ''Navigation timeout''
      then \<lparr>status = 408, error = ''Website took too long to load (30s timeout)'', message = None\<rparr>
      else \<lparr>status = 500, error = ''Failed to capture screenshot'', message = Some m\<rparr>)"

definition cleanup_p :: "env \<Rightarrow> state \<Rightarrow> state" where
  "cleanup_p e s = snd (whenTrue (browser s) (awaitCall BrowserClose (browserClose e)) s)"

text \<open>
  The inline validation sits inside the \<open>try\<close>, before the launch: its \<open>return\<close> passes
  through \<open>finally\<close> with \<open>browser\<close> still \<open>null\<close>.
\<close>

definition handler_p :: "env \<Rightarrow> string \<Rightarrow> query \<Rightarrow> run" where
  "handler_p e u q =
     (case validate_p q of
        Inl r \<Rightarrow> \<lparr>sent = Some (Json r), trace = events (cleanup_p e initial)\<rparr>
      | Inr n \<Rightarrow>
          (case tryBody_p e u q n initial of
             (Inr shot, s) \<Rightarrow>
               \<lparr>sent = Some (Image (''image/'' @ orDefault (q_format q) ''png'') shot),
                trace = events (cleanup_p e s)\<rparr>
           | (Inl m, s) \<Rightarrow> \<lparr>sent = Some (Json (classify_p m)), trace = events (cleanup_p e s)\<rparr>))"

definition screenshotRoute_p :: "url_parser \<Rightarrow> env \<Rightarrow> query \<Rightarrow> run" where
  "screenshotRoute_p newURL e q =
     (case validateUrl_p newURL q of
        Inl r \<Rightarrow> \<lparr>sent = Some (Json r), trace = []\<rparr>
      | Inr u \<Rightarrow> handler_p e u q)"

section \<open>Sample requests and environments\<close>

text \<open>A query with the URL alone, and an environment in which every call resolves.\<close>

text \<open>A URL with a line feed in its path, as the query \<open>url=https://example.com/%0Ax\<close> gives.\<close>

definition lineFeedUrl :: string where
  "lineFeedUrl = ''https://example.com/'' @ [CHR 0x0A] @ ''x''"

definition urlOnly :: "string \<Rightarrow> query" where
  "urlOnly u =
     \<lparr>q_url = Some u, q_width = None, q_height = None, q_quality = None, q_delay = None,
      q_format = None, q_fullPage = None, q_mobile = None, q_darkMode = None,
      q_selector = None\<rparr>"

definition cooperative :: env where
  "cooperative =
     \<lparr>launchLate = False, launchResult = Inr (), newPage = Inr (),
      setViewport = (\<lambda>_. Inr ()), setUserAgent = Inr (), emulateMediaFeatures = Inr (),
      setRequestInterception = Inr (), goto = (\<lambda>_ _. Inr ()), waitForTimeout = Inr (),
      evaluate = Inr (), waitForSelector = (\<lambda>_. Inr ()), querySelector = (\<lambda>_. Inr True),
      elementScreenshot = (\<lambda>_. Inr ''element''), pageScreenshot = (\<lambda>_. Inr ''page''),
      pageClose = Inr (), browserClose = Inr (), headersSent = False\<rparr>"

text \<open>
  The messages with which \<open>page.waitForSelector\<close> rejects after its timeout, in recent
  and in older releases of Puppeteer.
\<close>

definition waitFailed :: "string \<Rightarrow> string" where
  "waitFailed sel =
     ''Waiting for selector '' @ [CHR 0x60] @ sel @ [CHR 0x60]
       @ '' failed: Waiting failed: 5000ms exceeded''"

definition waitFailedOld :: "string \<Rightarrow> string" where
  "waitFailedOld sel =
     ''waiting for selector '' @ [CHR 0x60] @ sel @ [CHR 0x60]
       @ '' failed: timeout 5000ms exceeded''"

text \<open>A site whose every page load fails: the first attempt is reset, later ones are refused.\<close>

definition resetThenRefused :: "string \<Rightarrow> goto_opts \<Rightarrow> unit result" where
  "resetThenRefused u opts =
     (if opts = primaryOpts then Inl ''net::ERR_CONNECTION_RESET at https://example.com/''
      else Inl ''net::ERR_CONNECTION_REFUSED at https://example.com/'')"

text \<open>
  Whether the launch brings a browser process up (in time or late), and whether a run
  that called the launch left that process running.
\<close>

definition browserStarted :: "env \<Rightarrow> bool" where
  "browserStarted e = (launchResult e = Inr ())"

definition leaked :: "env \<Rightarrow> run \<Rightarrow> bool" where
  "leaked e r = (Launch \<in> set (trace r) \<and> browserStarted e \<and> BrowserClose \<notin> set (trace r))"

section \<open>Vocabulary of the properties\<close>

definition statusOf :: "reply \<Rightarrow> nat" where
  "statusOf r = (case r of Json j \<Rightarrow> status j | Image _ _ \<Rightarrow> 200)"

definition defaultParams :: params where
  "defaultParams =
     \<lparr>width = 1920, height = 1080, quality = 80, delay = 0, format = ''png'',
      fullPage = False, mobile = False, darkMode = False\<rparr>"

definition defaultNums :: nums where
  "defaultNums = \<lparr>widthNum = Some 1920, heightNum = Some 1080, qualityNum = Some 80, delayNum = Some 0\<rparr>"



text \<open>The four numeric parameters, their keys, their validated fields and their bounds.\<close>

datatype field = Width | Height | Quality | Delay

fun setField :: "field \<Rightarrow> string \<Rightarrow> query \<Rightarrow> query" where
  "setField Width tok q = q\<lparr>q_width := Some tok\<rparr>"
| "setField Height tok q = q\<lparr>q_height := Some tok\<rparr>"
| "setField Quality tok q = q\<lparr>q_quality := Some tok\<rparr>"
| "setField Delay tok q = q\<lparr>q_delay := Some tok\<rparr>"



fun lowest :: "field \<Rightarrow> int" where
  "lowest Width = 100"
| "lowest Height = 100"
| "lowest Quality = 1"
| "lowest Delay = 0"

fun highest :: "field \<Rightarrow> int" where
  "highest Width = 1920"
| "highest Height = 1080"
| "highest Quality = 100"
| "highest Delay = 5000"

fun highest_p :: "field \<Rightarrow> int" where
  "highest_p Width = 3840"
| "highest_p Height = 2160"
| "highest_p Quality = 100"
| "highest_p Delay = 10000"

text \<open>The fields' tokens with their defaults, and the messages of the range tests.\<close>

fun fieldToken :: "field \<Rightarrow> query \<Rightarrow> string" where
  "fieldToken Width q = orDefault (q_width q) ''1920''"
| "fieldToken Height q = orDefault (q_height q) ''1080''"
| "fieldToken Quality q = orDefault (q_quality q) ''80''"
| "fieldToken Delay q = orDefault (q_delay q) ''0''"

fun rangeMessage :: "field \<Rightarrow> string" where
  "rangeMessage Width = ''Width must be between 100 and 1920 pixels''"
| "rangeMessage Height = ''Height must be between 100 and 1080 pixels''"
| "rangeMessage Quality = ''Quality must be between 1 and 100''"
| "rangeMessage Delay = ''Delay must be between 0 and 5000 milliseconds''"

text \<open>
  A step is quiet for \<open>P\<close> when it only appends events that satisfy \<open>P\<close> to the trace and
  leaves the variables \<open>browser\<close> and \<open>page\<close> as they are.
\<close>

definition quiet :: "(event \<Rightarrow> bool) \<Rightarrow> 'a act \<Rightarrow> bool" where
  "quiet P m =
     (\<forall>s. (\<exists>t. events (snd (m s)) = events s @ t \<and> list_all P t)
          \<and> browser (snd (m s)) = browser s \<and> page (snd (m s)) = page s)"

text \<open>
  The events of the work on an open page: no launch, no close, every viewport set to
  \<open>vp\<close>, every settle delay \<open>d\<close> and every screenshot taken with the options \<open>opts\<close>.
\<close>

definition pageWork :: "viewport \<Rightarrow> number \<Rightarrow> shot_opts \<Rightarrow> event \<Rightarrow> bool" where
  "pageWork vp d opts ev =
     (case ev of
        Launch \<Rightarrow> False
      | PageClose \<Rightarrow> False
      | BrowserClose \<Rightarrow> False
      | SetViewport v1 \<Rightarrow> v1 = vp
      | WaitForTimeout d1 \<Rightarrow> d1 = d
      | PageScreenshot o1 \<Rightarrow> o1 = opts
      | ElementScreenshot o1 \<Rightarrow> o1 = opts
      | _ \<Rightarrow> True)"



definition isShot :: "shot_opts \<Rightarrow> event \<Rightarrow> bool" where
  "isShot opts ev = (ev = PageScreenshot opts \<or> ev = ElementScreenshot opts)"

definition shotsUse :: "shot_opts \<Rightarrow> event \<Rightarrow> bool" where
  "shotsUse opts ev =
     (case ev of PageScreenshot o1 \<Rightarrow> o1 = opts | ElementScreenshot o1 \<Rightarrow> o1 = opts | _ \<Rightarrow> True)"

definition isGoto :: "event \<Rightarrow> bool" where
  "isGoto ev = (case ev of Goto _ _ \<Rightarrow> True | _ \<Rightarrow> False)"

text \<open>The tails of the two \<open>try\<close> bodies, after the page and after the launch.\<close>

definition afterPage :: "env \<Rightarrow> string \<Rightarrow> params \<Rightarrow> string option \<Rightarrow> image act" where
  "afterPage e u p selector =
     andThen (configure e p) (\<lambda>_.
     andThen (navigate e u) (\<lambda>_.
     andThen (settle e p) (\<lambda>_.
     andThen (capture e (screenshotOptions p) selector) (\<lambda>shot.
     respond e u shot))))"

definition afterLaunch_p :: "env \<Rightarrow> string \<Rightarrow> query \<Rightarrow> nums \<Rightarrow> image act" where
  "afterLaunch_p e u q n =
     andThen (awaitCall NewPage (newPage e)) (\<lambda>_.
     andThen (configure_p e q n) (\<lambda>_.
     andThen (navigate_p e u) (\<lambda>_.
     andThen (settle_p e n) (\<lambda>_.
     andThen (capture_p e (screenshotOptions_p q n) (q_selector q)) (\<lambda>shot.
     respond_p u shot)))))"

section \<open>Facts about \<open>parseInt\<close> and the validators\<close>

lemma orDefault_Some [simp]: "orDefault (Some s) d = s"
  by (simp add: orDefault_def)

lemma orDefault_None [simp]: "orDefault None d = d"
  by (simp add: orDefault_def)

lemma outOfRange_Some [simp]: "outOfRange (Some v) lo hi = (v < lo \<or> v > hi)"
  by (simp add: outOfRange_def)

lemma outOfRange_p_Some [simp]: "outOfRange_p (Some v) lo hi = (v < lo \<or> v > hi)"
  by (simp add: outOfRange_p_def)







lemma setField_keeps [simp]:
  "q_url (setField f tok q) = q_url q" "q_selector (setField f tok q) = q_selector q"
  by (cases f; simp)+

lemma parseInt_defaults:
  "parseInt ''1920'' = Some 1920" "parseInt ''1080'' = Some 1080"
  "parseInt ''80'' = Some 80" "parseInt ''0'' = Some 0"
  by code_simp+

lemma lower_defaults:
  "toLowerCase ''png'' = ''png''" "toLowerCase ''false'' = ''false''"
  by code_simp+

lemma validateParams_urlOnly: "validateParams (urlOnly u) = Inr defaultParams"
  by (simp add: validateParams_def validateParams_try_def urlOnly_def defaultParams_def
      parseInt_defaults lower_defaults validBooleans_def)

lemma validate_p_urlOnly: "validate_p (urlOnly u) = Inr defaultNums"
  by (simp add: validate_p_def urlOnly_def defaultNums_def parseInt_defaults)

lemma header_example: "validHeaderValue ''https://example.com/''"
  by code_simp

lemma plainURL_example:
  "plainURL ''https://example.com/'' = Inr \<lparr>protocol = ''https:'', hostname = ''example.com''\<rparr>"
  by code_simp

lemma validateUrl_example:
  "validateUrl plainURL production (urlOnly ''https://example.com/'') = Inr ''https://example.com/''"
proof -
  have nosusp:
    "\<not> list_ex (\<lambda>pattern. strIncludes_i ''https://example.com/'' pattern) suspiciousPatterns"
    by code_simp
  have npriv: "\<not> privateIpRegex (toLowerCase ''example.com'')"
    by code_simp
  show ?thesis
    using nosusp npriv
    by (simp add: validateUrl_def validateUrl_try_def urlOnly_def plainURL_example)
qed

lemma validateUrl_p_example:
  "validateUrl_p plainURL (urlOnly ''https://example.com/'') = Inr ''https://example.com/''"
  by (simp add: validateUrl_p_def urlOnly_def plainURL_example)

section \<open>URL validation by profile\<close>

lemma plainURL_link_local:
  "plainURL ''http://169.254.169.254/'' =
     Inr \<lparr>protocol = ''http:'', hostname = ''169.254.169.254''\<rparr>"
  by code_simp

lemma link_local_private: "privateIpRegex (toLowerCase ''169.254.169.254'')"
  by code_simp

lemma link_local_not_suspicious:
  "\<not> list_ex (\<lambda>pattern. strIncludes_i ''http://169.254.169.254/'' pattern) suspiciousPatterns"
  by code_simp

text \<open>
  C4. The URL \<open>http://169.254.169.254/\<close>, which the platform parses to the protocol
  \<open>http:\<close> and the host name \<open>169.254.169.254\<close>, is rejected by the first variant
  in production with the reply 400 \<open>Invalid URL\<close>, \<open>Private and localhost URLs are not
  allowed\<close>; the first variant outside production and the second (permissive) variant
  accept it.
\<close>

theorem link_local_url_by_profile:
  assumes parsed: "newURL ''http://169.254.169.254/'' =
                     Inr \<lparr>protocol = ''http:'', hostname = ''169.254.169.254''\<rparr>"
    and url: "q_url q = Some ''http://169.254.169.254/''"
  shows "validateUrl newURL True q =
           Inl \<lparr>status = 400, error = ''Invalid URL'',
                message = Some ''Private and localhost URLs are not allowed''\<rparr>
         \<and> validateUrl newURL False q = Inr ''http://169.254.169.254/''
         \<and> validateUrl_p newURL q = Inr ''http://169.254.169.254/''"
  using parsed url link_local_private link_local_not_suspicious
  by (simp add: validateUrl_def validateUrl_try_def validateUrl_p_def)

theorem link_local_url_by_profile_witness:
  "plainURL ''http://169.254.169.254/'' =
     Inr \<lparr>protocol = ''http:'', hostname = ''169.254.169.254''\<rparr>
   \<and> q_url (urlOnly ''http://169.254.169.254/'') = Some ''http://169.254.169.254/''
   \<and> validateUrl plainURL True (urlOnly ''http://169.254.169.254/'') =
        Inl \<lparr>status = 400, error = ''Invalid URL'',
             message = Some ''Private and localhost URLs are not allowed''\<rparr>
   \<and> validateUrl plainURL False (urlOnly ''http://169.254.169.254/'') =
        Inr ''http://169.254.169.254/''
   \<and> validateUrl_p plainURL (urlOnly ''http://169.254.169.254/'') =
        Inr ''http://169.254.169.254/''"
proof -
  have u: "q_url (urlOnly ''http://169.254.169.254/'') = Some ''http://169.254.169.254/''"
    by (simp add: urlOnly_def)
  show ?thesis
    using plainURL_link_local u
      link_local_url_by_profile [where newURL = plainURL, OF plainURL_link_local u]
    by simp
qed

lemma plainURL_javascript:
  "plainURL ''javascript:alert(1)'' = Inr \<lparr>protocol = ''javascript:'', hostname = []\<rparr>"
  by code_simp

lemma javascript_suspicious:
  "list_ex (\<lambda>pattern. strIncludes_i ''javascript:alert(1)'' pattern) suspiciousPatterns"
  by code_simp

text \<open>
  C5, as stated, fails: \<open>javascript:alert(1)\<close> is rejected by the protocol rule, which
  comes before the suspicious-pattern rule, so the reply carries \<open>Only HTTP and HTTPS
  protocols are supported\<close> and not \<open>Suspicious URL pattern detected\<close>.
\<close>

theorem javascript_url_counterexample:
  "validateUrl plainURL True (urlOnly ''javascript:alert(1)'') =
     Inl \<lparr>status = 400, error = ''Invalid URL'',
          message = Some ''Only HTTP and HTTPS protocols are supported''\<rparr>
   \<and> validateUrl plainURL True (urlOnly ''javascript:alert(1)'') \<noteq>
     Inl \<lparr>status = 400, error = ''Invalid URL'',
          message = Some ''Suspicious URL pattern detected''\<rparr>"
  using plainURL_javascript by (simp add: validateUrl_def validateUrl_try_def urlOnly_def)

text \<open>
  C5, amended. The URL \<open>javascript:alert(1)\<close>, which the platform parses to the protocol
  \<open>javascript:\<close>, is rejected with status 400 in every profile, and the rule that
  rejects it is the protocol rule: the first variant replies \<open>Invalid URL\<close> with
  \<open>Only HTTP and HTTPS protocols are supported\<close>, in production or not, and the second
  variant replies \<open>Invalid URL format. Please provide a valid HTTP/HTTPS URL.\<close>
\<close>

theorem javascript_url_rejected:
  assumes parsed: "newURL ''javascript:alert(1)'' = Inr obj"
    and scheme: "protocol obj = ''javascript:''"
    and url: "q_url q = Some ''javascript:alert(1)''"
  shows "validateUrl newURL production q =
           Inl \<lparr>status = 400, error = ''Invalid URL'',
                message = Some ''Only HTTP and HTTPS protocols are supported''\<rparr>
         \<and> validateUrl_p newURL q =
           Inl \<lparr>status = 400,
                error = ''Invalid URL format. Please provide a valid HTTP/HTTPS URL.'',
                message = None\<rparr>"
  using parsed scheme url
  by (simp add: validateUrl_def validateUrl_try_def validateUrl_p_def)

theorem javascript_url_rejected_witness:
  "plainURL ''javascript:alert(1)'' = Inr \<lparr>protocol = ''javascript:'', hostname = []\<rparr>
   \<and> protocol \<lparr>protocol = ''javascript:'', hostname = []\<rparr> = ''javascript:''
   \<and> q_url (urlOnly ''javascript:alert(1)'') = Some ''javascript:alert(1)''
   \<and> validateUrl plainURL False (urlOnly ''javascript:alert(1)'') =
        Inl \<lparr>status = 400, error = ''Invalid URL'',
             message = Some ''Only HTTP and HTTPS protocols are supported''\<rparr>
   \<and> validateUrl_p plainURL (urlOnly ''javascript:alert(1)'') =
        Inl \<lparr>status = 400,
             error = ''Invalid URL format. Please provide a valid HTTP/HTTPS URL.'',
             message = None\<rparr>"
proof -
  have s: "protocol \<lparr>protocol = ''javascript:'', hostname = []\<rparr> = ''javascript:''"
    by simp
  have u: "q_url (urlOnly ''javascript:alert(1)'') = Some ''javascript:alert(1)''"
    by (simp add: urlOnly_def)
  show ?thesis
    using plainURL_javascript u
      javascript_url_rejected [where newURL = plainURL and production = False,
        OF plainURL_javascript s u]
    by simp
qed

text \<open>
  Whatever the parser answers, the first variant rejects this URL with \<open>Invalid URL\<close>:
  were the protocol rule to pass, the suspicious-pattern rule would not.
\<close>

lemma javascript_url_any_parser:
  assumes url: "q_url q = Some ''javascript:alert(1)''"
  shows "\<exists>m. validateUrl newURL production q =
           Inl \<lparr>status = 400, error = ''Invalid URL'', message = Some m\<rparr>"
  using url javascript_suspicious
  by (simp add: validateUrl_def validateUrl_try_def split: sum.splits)

section \<open>Substrings\<close>

text \<open>\<open>strIncludes\<close> is the substring relation.\<close>

lemma startsWith_iff: "startsWith s p \<longleftrightarrow> (\<exists>b. s = p @ b)"
  by (induction s p rule: startsWith.induct) auto

lemma strIncludes_iff: "strIncludes s p \<longleftrightarrow> (\<exists>a b. s = a @ p @ b)"
proof (induction s)
  case Nil
  then show ?case by auto
next
  case (Cons c cs)
  show ?case
  proof
    assume "strIncludes (c # cs) p"
    then consider "startsWith (c # cs) p" | "strIncludes cs p"
      by auto
    then show "\<exists>a b. c # cs = a @ p @ b"
    proof cases
      case 1
      then obtain b where "c # cs = p @ b"
        by (auto simp: startsWith_iff)
      then have "c # cs = [] @ p @ b"
        by simp
      then show ?thesis
        by blast
    next
      case 2
      with Cons.IH obtain a b where "cs = a @ p @ b"
        by blast
      then have "c # cs = (c # a) @ p @ b"
        by simp
      then show ?thesis
        by blast
    qed
  next
    assume "\<exists>a b. c # cs = a @ p @ b"
    then obtain a b where ab: "c # cs = a @ p @ b"
      by blast
    show "strIncludes (c # cs) p"
    proof (cases a)
      case Nil
      with ab have "startsWith (c # cs) p"
        by (auto simp: startsWith_iff)
      then show ?thesis
        by simp
    next
      case (Cons x a')
      with ab have "cs = a' @ p @ b"
        by simp
      with Cons.IH have "strIncludes cs p"
        by blast
      then show ?thesis
        by simp
    qed
  qed
qed


section \<open>Traces of the handlers\<close>

lemmas act_defs = andThen_def tryCatch_def awaitCall_def whenTrue_def ret_def throwError_def

lemmas step_defs = launchRace_def openPage_def configure_def navigate_def settle_def capture_def
  respond_def cleanup_def initial_def truthy_def

lemmas step_p_defs = launch_p_def configure_p_def navigate_p_def settle_p_def capture_p_def
  respond_p_def cleanup_p_def initial_def truthy_def positive_def

lemma quiet_ret: "quiet P (ret x)"
  by (simp add: quiet_def ret_def)

lemma quiet_throwError: "quiet P (throwError m)"
  by (simp add: quiet_def throwError_def)

lemma quiet_awaitCall: "P ev \<Longrightarrow> quiet P (awaitCall ev r)"
  by (simp add: quiet_def awaitCall_def)

lemma quiet_andThen:
  assumes m: "quiet P m" and f: "\<And>x. quiet P (f x)"
  shows "quiet P (andThen m f)"
  unfolding quiet_def
proof
  fix s
  obtain r s1 where ms: "m s = (r, s1)"
    by (cases "m s")
  from m [unfolded quiet_def, rule_format, of s] ms
  obtain t1 where t1: "events s1 = events s @ t1" "list_all P t1"
    and b1: "browser s1 = browser s" "page s1 = page s"
    by auto
  show "(\<exists>t. events (snd (andThen m f s)) = events s @ t \<and> list_all P t)
          \<and> browser (snd (andThen m f s)) = browser s \<and> page (snd (andThen m f s)) = page s"
  proof (cases r)
    case (Inl e)
    with ms t1 b1 show ?thesis
      by (simp add: andThen_def)
  next
    case (Inr x)
    from f [of x, unfolded quiet_def, rule_format, of s1]
    obtain t2 where "events (snd (f x s1)) = events s1 @ t2" "list_all P t2"
      "browser (snd (f x s1)) = browser s1" "page (snd (f x s1)) = page s1"
      by auto
    with Inr ms t1 b1 show ?thesis
      by (simp add: andThen_def)
  qed
qed

lemma quiet_tryCatch:
  assumes m: "quiet P m" and h: "\<And>x. quiet P (h x)"
  shows "quiet P (tryCatch m h)"
  unfolding quiet_def
proof
  fix s
  obtain r s1 where ms: "m s = (r, s1)"
    by (cases "m s")
  from m [unfolded quiet_def, rule_format, of s] ms
  obtain t1 where t1: "events s1 = events s @ t1" "list_all P t1"
    and b1: "browser s1 = browser s" "page s1 = page s"
    by auto
  show "(\<exists>t. events (snd (tryCatch m h s)) = events s @ t \<and> list_all P t)
          \<and> browser (snd (tryCatch m h s)) = browser s \<and> page (snd (tryCatch m h s)) = page s"
  proof (cases r)
    case (Inr x)
    with ms t1 b1 show ?thesis
      by (simp add: tryCatch_def)
  next
    case (Inl x)
    from h [of x, unfolded quiet_def, rule_format, of s1]
    obtain t2 where "events (snd (h x s1)) = events s1 @ t2" "list_all P t2"
      "browser (snd (h x s1)) = browser s1" "page (snd (h x s1)) = page s1"
      by auto
    with Inl ms t1 b1 show ?thesis
      by (simp add: tryCatch_def)
  qed
qed

lemma quiet_whenTrue: "quiet P m \<Longrightarrow> quiet P (whenTrue b m)"
  by (simp add: whenTrue_def quiet_ret)

lemmas quiet_intros = quiet_ret quiet_throwError quiet_awaitCall quiet_andThen quiet_tryCatch
  quiet_whenTrue

lemma quiet_configure: "quiet (pageWork (viewportOf p) d opts) (configure e p)"
  unfolding configure_def by (intro quiet_intros) (simp_all add: pageWork_def)

lemma quiet_navigate: "quiet (pageWork vp d opts) (navigate e u)"
  unfolding navigate_def by (intro quiet_intros) (simp_all add: pageWork_def)

lemma quiet_settle: "quiet (pageWork vp (Some (delay p)) opts) (settle e p)"
  unfolding settle_def by (intro quiet_intros) (simp_all add: pageWork_def)

lemma quiet_capture: "quiet (pageWork vp d opts) (capture e opts sel)"
  unfolding capture_def Let_def
  by (auto intro!: quiet_intros simp: pageWork_def)

lemma quiet_respond: "quiet (pageWork vp d opts) (respond e u shot)"
  unfolding respond_def by (simp add: quiet_intros)

lemma quiet_afterPage:
  "quiet (pageWork (viewportOf p) (Some (delay p)) (screenshotOptions p)) (afterPage e u p sel)"
  unfolding afterPage_def
  by (intro quiet_andThen quiet_configure quiet_navigate quiet_settle quiet_capture quiet_respond)

lemma tryBody_afterPage:
  "tryBody e u p sel = andThen (launchRace e) (\<lambda>_. andThen (openPage e) (\<lambda>_. afterPage e u p sel))"
  by (simp add: tryBody_def afterPage_def)

lemma tryBody_state:
  "\<exists>t. events (snd (tryBody e u p sel initial)) = Launch # t
       \<and> list_all (pageWork (viewportOf p) (Some (delay p)) (screenshotOptions p)) t
       \<and> browser (snd (tryBody e u p sel initial)) = (\<not> launchLate e \<and> launchResult e = Inr ())
       \<and> page (snd (tryBody e u p sel initial)) =
           (\<not> launchLate e \<and> launchResult e = Inr () \<and> newPage e = Inr ())"
proof -
  define s2 where "s2 b = \<lparr>events = [Launch, NewPage], browser = True, page = b\<rparr>" for b
  from quiet_afterPage [where e = e and u = u and p = p and sel = sel] obtain t where
    t: "events (snd (afterPage e u p sel (s2 True))) = events (s2 True) @ t"
      "list_all (pageWork (viewportOf p) (Some (delay p)) (screenshotOptions p)) t"
      "browser (snd (afterPage e u p sel (s2 True))) = browser (s2 True)"
      "page (snd (afterPage e u p sel (s2 True))) = page (s2 True)"
    unfolding quiet_def by blast
  show ?thesis
  proof (cases "\<not> launchLate e \<and> launchResult e = Inr ()")
    case False
    then show ?thesis
      by (cases "launchResult e")
        (auto simp: tryBody_afterPage launchRace_def andThen_def awaitCall_def initial_def)
  next
    case True
    show ?thesis
    proof (cases "newPage e")
      case (Inl m)
      with True show ?thesis
        by (simp add: tryBody_afterPage launchRace_def openPage_def andThen_def awaitCall_def
            initial_def pageWork_def)
    next
      case (Inr x)
      with True t show ?thesis
        by (simp add: tryBody_afterPage launchRace_def openPage_def andThen_def awaitCall_def
            initial_def pageWork_def s2_def)
    qed
  qed
qed

lemma cleanup_events:
  "events (cleanup e s) =
     events s @ (if page s
                 then PageClose # (if pageClose e = Inr () \<and> browser s then [BrowserClose] else [])
                 else if browser s then [BrowserClose] else [])"
  by (cases "pageClose e"; cases "browserClose e")
    (simp_all add: cleanup_def tryCatch_def andThen_def whenTrue_def awaitCall_def ret_def)

lemma handler_trace: "trace (handler e u p sel) = events (cleanup e (snd (tryBody e u p sel initial)))"
  by (simp add: handler_def split: prod.splits sum.splits)

lemma count_pageWork:
  "list_all (pageWork vp d opts) t \<Longrightarrow>
   count_list t Launch = 0 \<and> count_list t BrowserClose = 0 \<and> count_list t PageClose = 0"
  by (induction t) (auto simp: pageWork_def)

lemma handler_launches_once: "count_list (trace (handler e u p sel)) Launch = 1"
proof -
  from tryBody_state [of e u p sel] obtain t where
    "events (snd (tryBody e u p sel initial)) = Launch # t"
    "list_all (pageWork (viewportOf p) (Some (delay p)) (screenshotOptions p)) t"
    by blast
  then show ?thesis
    using count_pageWork [where t = t] by (simp add: handler_trace cleanup_events)
qed

lemma handler_closes:
  "count_list (trace (handler e u p sel)) BrowserClose =
     (if \<not> launchLate e \<and> launchResult e = Inr () \<and> (newPage e = Inr () \<longrightarrow> pageClose e = Inr ())
      then 1 else 0)"
proof -
  from tryBody_state [of e u p sel] obtain t where
    "events (snd (tryBody e u p sel initial)) = Launch # t"
    "list_all (pageWork (viewportOf p) (Some (delay p)) (screenshotOptions p)) t"
    "browser (snd (tryBody e u p sel initial)) = (\<not> launchLate e \<and> launchResult e = Inr ())"
    "page (snd (tryBody e u p sel initial)) =
           (\<not> launchLate e \<and> launchResult e = Inr () \<and> newPage e = Inr ())"
    by blast
  then show ?thesis
    using count_pageWork [where t = t] by (simp add: handler_trace cleanup_events)
qed

lemma quiet_configure_p: "quiet (pageWork (viewportOf_p q n) d opts) (configure_p e q n)"
  unfolding configure_p_def by (intro quiet_intros) (simp_all add: pageWork_def)

lemma quiet_navigate_p: "quiet (pageWork vp d opts) (navigate_p e u)"
  unfolding navigate_p_def by (intro quiet_intros) (simp_all add: pageWork_def)

lemma quiet_settle_p: "quiet (pageWork vp (delayNum n) opts) (settle_p e n)"
  unfolding settle_p_def by (intro quiet_intros) (simp_all add: pageWork_def)

lemma quiet_capture_p: "quiet (pageWork vp d opts) (capture_p e opts sel)"
  unfolding capture_p_def Let_def
  by (auto intro!: quiet_intros simp: pageWork_def)

lemma quiet_respond_p: "quiet (pageWork vp d opts) (respond_p u shot)"
  unfolding respond_p_def by (simp add: quiet_intros)

lemma quiet_afterLaunch_p:
  "quiet (pageWork (viewportOf_p q n) (delayNum n) (screenshotOptions_p q n)) (afterLaunch_p e u q n)"
  unfolding afterLaunch_p_def
  by (intro quiet_andThen quiet_configure_p quiet_navigate_p quiet_settle_p quiet_capture_p
      quiet_respond_p quiet_awaitCall) (simp add: pageWork_def)

lemma tryBody_p_afterLaunch:
  "tryBody_p e u q n = andThen (launch_p e) (\<lambda>_. afterLaunch_p e u q n)"
  by (simp add: tryBody_p_def afterLaunch_p_def)

lemma tryBody_p_state:
  "\<exists>t. events (snd (tryBody_p e u q n initial)) = Launch # t \<and> list_all (pageWork (viewportOf_p q n) (delayNum n) (screenshotOptions_p q n)) t
       \<and> browser (snd (tryBody_p e u q n initial)) = (launchResult e = Inr ())"
proof -
  define s1 where "s1 = \<lparr>events = [Launch], browser = True, page = False\<rparr>"
  from quiet_afterLaunch_p [where e = e and u = u and q = q and n = n, unfolded quiet_def, rule_format, of s1] obtain t where
    t: "events (snd (afterLaunch_p e u q n s1)) = events s1 @ t" "list_all (pageWork (viewportOf_p q n) (delayNum n) (screenshotOptions_p q n)) t"
      "browser (snd (afterLaunch_p e u q n s1)) = browser s1"
    by blast
  show ?thesis
  proof (cases "launchResult e")
    case (Inl m)
    then show ?thesis
      by (simp add: tryBody_p_afterLaunch launch_p_def andThen_def awaitCall_def initial_def)
  next
    case (Inr x)
    with t show ?thesis
      by (simp add: tryBody_p_afterLaunch launch_p_def andThen_def awaitCall_def initial_def s1_def)
  qed
qed

lemma cleanup_p_events:
  "events (cleanup_p e s) = events s @ (if browser s then [BrowserClose] else [])"
  by (simp add: cleanup_p_def whenTrue_def awaitCall_def ret_def)

lemma handler_p_trace:
  "validate_p q = Inr n \<Longrightarrow>
   trace (handler_p e u q) = events (cleanup_p e (snd (tryBody_p e u q n initial)))"
  by (simp add: handler_p_def split: prod.splits sum.splits)

lemma handler_p_rejected_trace:
  "validate_p q = Inl r \<Longrightarrow> handler_p e u q = \<lparr>sent = Some (Json r), trace = []\<rparr>"
  by (simp add: handler_p_def cleanup_p_events initial_def)

lemma handler_p_launches:
  assumes "validate_p q = Inr n"
  shows "\<exists>t. trace (handler_p e u q) = Launch # t"
proof -
  from tryBody_p_state [of e u q n] obtain t where
    "events (snd (tryBody_p e u q n initial)) = Launch # t"
    by blast
  then show ?thesis
    by (simp add: handler_p_trace [OF assms] cleanup_p_events)
qed

lemma handler_p_closes:
  assumes "validate_p q = Inr n"
  shows "count_list (trace (handler_p e u q)) Launch = 1
       \<and> count_list (trace (handler_p e u q)) BrowserClose = (if launchResult e = Inr () then 1 else 0)"
proof -
  from tryBody_p_state [of e u q n] obtain t where
    "events (snd (tryBody_p e u q n initial)) = Launch # t" "list_all (pageWork (viewportOf_p q n) (delayNum n) (screenshotOptions_p q n)) t"
    "browser (snd (tryBody_p e u q n initial)) = (launchResult e = Inr ())"
    by blast
  then show ?thesis
    using count_pageWork [where t = t] by (simp add: handler_p_trace [OF assms] cleanup_p_events)
qed


lemma andThen_Inr:
  "andThen m f s = (Inr y, s') \<Longrightarrow> \<exists>x s1. m s = (Inr x, s1) \<and> f x s1 = (Inr y, s')"
  by (auto simp: andThen_def split: prod.splits sum.splits)

lemma quiet_events:
  assumes "quiet P m" "m s = (r, s')"
  shows "\<exists>t. events s' = events s @ t"
  using assms(1) [unfolded quiet_def, rule_format, of s] assms(2) by auto

lemma capture_shot:
  assumes "capture e opts sel s = (Inr shot, s')"
  shows "list_ex (isShot opts) (events s')"
  using assms
  by (auto simp: capture_def Let_def tryCatch_def andThen_def awaitCall_def throwError_def isShot_def
      split: if_splits sum.splits prod.splits)

lemma capture_p_shot:
  assumes "capture_p e opts sel s = (Inr shot, s')"
  shows "list_ex (isShot opts) (events s')"
  using assms
  by (auto simp: capture_p_def Let_def andThen_def awaitCall_def throwError_def isShot_def
      split: if_splits sum.splits prod.splits)

lemma respond_state: "respond e u shot s = (Inr y, s') \<Longrightarrow> s' = s"
  by (auto simp: respond_def throwError_def ret_def split: if_splits)

lemma respond_p_state: "respond_p u shot s = (Inr y, s') \<Longrightarrow> s' = s"
  by (auto simp: respond_p_def throwError_def ret_def split: if_splits)

lemma tryBody_shot:
  assumes "tryBody e u p sel s = (Inr shot, s')"
  shows "list_ex (isShot (screenshotOptions p)) (events s')"
proof -
  from assms obtain s5 s6 img where c: "capture e (screenshotOptions p) sel s5 = (Inr img, s6)"
    and r: "respond e u img s6 = (Inr shot, s')"
    unfolding tryBody_def by (blast dest!: andThen_Inr)
  from respond_state [OF r] capture_shot [OF c] show ?thesis
    by simp
qed

lemma tryBody_p_shot:
  assumes "tryBody_p e u q n s = (Inr shot, s')"
  shows "list_ex (isShot (screenshotOptions_p q n)) (events s')"
proof -
  from assms obtain s5 s6 img
    where c: "capture_p e (screenshotOptions_p q n) (q_selector q) s5 = (Inr img, s6)"
      and r: "respond_p u img s6 = (Inr shot, s')"
    unfolding tryBody_p_def by (blast dest!: andThen_Inr)
  from respond_p_state [OF r] capture_p_shot [OF c] show ?thesis
    by simp
qed

lemma pageWork_shotsUse: "list_all (pageWork vp d opts) t \<Longrightarrow> list_all (shotsUse opts) t"
  by (induction t) (auto simp: pageWork_def shotsUse_def split: event.splits)

lemma handler_shots:
  "list_all (shotsUse (screenshotOptions p)) (trace (handler e u p sel))"
proof -
  from tryBody_state [of e u p sel] obtain t where
    "events (snd (tryBody e u p sel initial)) = Launch # t"
    "list_all (pageWork (viewportOf p) (Some (delay p)) (screenshotOptions p)) t"
    by blast
  then show ?thesis
    using pageWork_shotsUse [where opts = "screenshotOptions p" and t = t]
    by (simp add: handler_trace cleanup_events shotsUse_def)
qed

lemma handler_p_shots:
  assumes "validate_p q = Inr n"
  shows "list_all (shotsUse (screenshotOptions_p q n)) (trace (handler_p e u q))"
proof -
  from tryBody_p_state [of e u q n] obtain t where
    "events (snd (tryBody_p e u q n initial)) = Launch # t"
    "list_all (pageWork (viewportOf_p q n) (delayNum n) (screenshotOptions_p q n)) t"
    by blast
  then show ?thesis
    using pageWork_shotsUse [where opts = "screenshotOptions_p q n" and t = t]
    by (simp add: handler_p_trace [OF assms] cleanup_p_events shotsUse_def)
qed

lemma handler_image_shot:
  assumes "sent (handler e u p sel) = Some (Image ct img)"
  shows "list_ex (isShot (screenshotOptions p)) (trace (handler e u p sel))"
proof -
  obtain r s where rs: "tryBody e u p sel initial = (r, s)"
    by (cases "tryBody e u p sel initial")
  with assms obtain shot where "r = Inr shot"
    by (cases r) (auto simp: handler_def split: if_splits)
  with rs have "list_ex (isShot (screenshotOptions p)) (events s)"
    by (auto dest: tryBody_shot)
  with rs show ?thesis
    by (auto simp: handler_trace cleanup_events list_ex_iff)
qed

lemma handler_p_image_shot:
  assumes v: "validate_p q = Inr n" and "sent (handler_p e u q) = Some (Image ct img)"
  shows "list_ex (isShot (screenshotOptions_p q n)) (trace (handler_p e u q))"
proof -
  obtain r s where rs: "tryBody_p e u q n initial = (r, s)"
    by (cases "tryBody_p e u q n initial")
  with assms obtain shot where "r = Inr shot"
    by (cases r) (auto simp: handler_p_def)
  with rs have "list_ex (isShot (screenshotOptions_p q n)) (events s)"
    by (auto dest: tryBody_p_shot)
  with rs show ?thesis
    by (auto simp: handler_p_trace [OF v] cleanup_p_events list_ex_iff)
qed

section \<open>Prefix parsing of the numeric parameters\<close>









lemma setField_format [simp]: "q_format (setField f tok q) = q_format q"
  by (cases f) simp_all







section \<open>Numeric parameters out of range\<close>

text \<open>
  The first variant rejects every numeric parameter that is NaN or out of range before
  any browser call: the reply is 400 \<open>Invalid parameters\<close>, and its message is that of
  a numeric field that is out of range, or that of the format, whose test stands before
  those of quality and delay.
\<close>

lemma strict_out_of_range_rejected:
  assumes bad: "outOfRange (parseInt (fieldToken f q)) (lowest f) (highest f)"
  shows "\<exists>m. validateParams q =
              Inl \<lparr>status = 400, error = ''Invalid parameters'', message = Some m\<rparr>
            \<and> (m = ''Format must be png, jpeg, or webp''
                \<or> (\<exists>g. m = rangeMessage g
                      \<and> outOfRange (parseInt (fieldToken g q)) (lowest g) (highest g)))"
proof -
  define out where "out g = outOfRange (parseInt (fieldToken g q)) (lowest g) (highest g)" for g
  define fmt where "fmt = (toLowerCase (orDefault (q_format q) ''png'') \<in> set [''png'', ''jpeg'', ''webp''])"
  have some: "out Width \<or> out Height \<or> out Quality \<or> out Delay"
    using bad by (cases f) (auto simp: out_def)
  consider (w) "out Width"
    | (h) "\<not> out Width" "out Height"
    | (f) "\<not> out Width" "\<not> out Height" "\<not> fmt"
    | (q) "\<not> out Width" "\<not> out Height" "fmt" "out Quality"
    | (d) "\<not> out Width" "\<not> out Height" "fmt" "\<not> out Quality" "out Delay"
    using some by blast
  then show ?thesis
  proof cases
    case w
    then have "validateParams_try q = Inl (rangeMessage Width)"
      by (simp add: validateParams_try_def Let_def out_def)
    moreover from w have "\<exists>g. rangeMessage Width = rangeMessage g \<and> out g"
      by blast
    ultimately show ?thesis
      unfolding out_def validateParams_def by (simp del: rangeMessage.simps)
  next
    case h
    then have "validateParams_try q = Inl (rangeMessage Height)"
      by (simp add: validateParams_try_def Let_def out_def)
    moreover from h have "\<exists>g. rangeMessage Height = rangeMessage g \<and> out g"
      by blast
    ultimately show ?thesis
      unfolding out_def validateParams_def by (simp del: rangeMessage.simps)
  next
    case f
    then have "validateParams_try q = Inl ''Format must be png, jpeg, or webp''"
      by (simp add: validateParams_try_def Let_def out_def fmt_def)
    then show ?thesis
      by (simp add: validateParams_def)
  next
    case q
    then have "validateParams_try q = Inl (rangeMessage Quality)"
      by (simp add: validateParams_try_def Let_def out_def fmt_def)
    moreover from q have "\<exists>g. rangeMessage Quality = rangeMessage g \<and> out g"
      by blast
    ultimately show ?thesis
      unfolding out_def validateParams_def by (simp del: rangeMessage.simps)
  next
    case d
    then have "validateParams_try q = Inl (rangeMessage Delay)"
      by (simp add: validateParams_try_def Let_def out_def fmt_def)
    moreover from d have "\<exists>g. rangeMessage Delay = rangeMessage g \<and> out g"
      by blast
    ultimately show ?thesis
      unfolding out_def validateParams_def by (simp del: rangeMessage.simps)
  qed
qed

lemma strict_rejected_no_session:
  assumes "validateParams q = Inl r"
  shows "trace (screenshotRoute newURL production e q) = []"
  using assms by (simp add: screenshotRoute_def split: sum.splits)

text \<open>
  The second variant rejects a numeric parameter that parses to an integer outside its
  bounds, again before any browser call.
\<close>

lemma permissive_out_of_range_rejected:
  assumes tok: "parseInt (fieldToken f q) = Some v"
    and out: "v < lowest f \<or> highest_p f < v"
  shows "\<exists>r. validate_p q = Inl r \<and> status r = 400"
    and "trace (screenshotRoute_p newURL e q) = []"
proof -
  show r: "\<exists>r. validate_p q = Inl r \<and> status r = 400"
    using tok out by (cases f) (auto simp: validate_p_def Let_def)
  then obtain r where "validate_p q = Inl r"
    by blast
  then show "trace (screenshotRoute_p newURL e q) = []"
    by (simp add: screenshotRoute_p_def handler_p_rejected_trace split: sum.splits)
qed

lemma nan_abc: "parseInt ''abc'' = None" by code_simp

text \<open>
  C3 at the failing input \<open>width=abc\<close> of the second variant: \<open>parseInt\<close> yields NaN,
  no range test of the inline validation fires (none tests \<open>isNaN\<close>), the validation
  passes with a NaN width, and whatever the browser does, the handler calls the launch.
\<close>

theorem nan_width_reaches_browser:
  "validateUrl_p plainURL ((urlOnly ''https://example.com/'')\<lparr>q_width := Some ''abc''\<rparr>) =
     Inr ''https://example.com/''
   \<and> parseInt ''abc'' = None
   \<and> validate_p ((urlOnly ''https://example.com/'')\<lparr>q_width := Some ''abc''\<rparr>) =
       Inr (defaultNums\<lparr>widthNum := None\<rparr>)
   \<and> (\<exists>t. trace (screenshotRoute_p plainURL e
               ((urlOnly ''https://example.com/'')\<lparr>q_width := Some ''abc''\<rparr>)) = Launch # t)"
proof -
  let ?q = "(urlOnly ''https://example.com/'')\<lparr>q_width := Some ''abc''\<rparr>"
  have u: "validateUrl_p plainURL ?q = Inr ''https://example.com/''"
    by (simp add: validateUrl_p_def urlOnly_def plainURL_example)
  have v: "validate_p ?q = Inr (defaultNums\<lparr>widthNum := None\<rparr>)"
    by (simp add: validate_p_def urlOnly_def defaultNums_def parseInt_defaults nan_abc Let_def
        outOfRange_p_def)
  from handler_p_launches [OF v, of e "''https://example.com/''"] u v nan_abc
  show ?thesis
    by (simp add: screenshotRoute_p_def)
qed

section \<open>Request interception\<close>

text \<open>
  The handler aborts exactly the requests of type \<open>font\<close> or \<open>media\<close> and those whose
  URL contains a deny-listed domain, and continues every other one. It does not look at
  whether the request is the navigation request of the page.
\<close>

lemma onRequest_exact:
  "onRequest r = Abort \<longleftrightarrow>
     resourceType r = ''font'' \<or> resourceType r = ''media''
     \<or> (\<exists>d \<in> set blockedDomains. \<exists>a b. req_url r = a @ d @ b)"
  by (auto simp: onRequest_def list_ex_iff strIncludes_iff)

lemma onRequest_total: "onRequest r = Continue \<longleftrightarrow> onRequest r \<noteq> Abort"
  by (cases "onRequest r") auto

lemma plainURL_facebook:
  "plainURL ''https://www.facebook.com/'' = Inr \<lparr>protocol = ''https:'', hostname = ''www.facebook.com''\<rparr>"
  by code_simp

lemma facebook_public: "\<not> privateIpRegex (toLowerCase ''www.facebook.com'')"
  by code_simp

lemma facebook_not_suspicious:
  "\<not> list_ex (\<lambda>pattern. strIncludes_i ''https://www.facebook.com/'' pattern) suspiciousPatterns"
  by code_simp

lemma facebook_aborted:
  "onRequest \<lparr>resourceType = ''document'', req_url = ''https://www.facebook.com/''\<rparr> = Abort"
  by code_simp

text \<open>
  C7 at the failing input \<open>url=https://www.facebook.com/\<close>: the URL passes the URL
  validation of the first variant in production, and the request for the document itself
  (type \<open>document\<close>, the same URL) is aborted, since its URL contains the deny-listed
  \<open>facebook.com\<close>.
\<close>

theorem document_request_aborted:
  "validateUrl plainURL True (urlOnly ''https://www.facebook.com/'') = Inr ''https://www.facebook.com/''
   \<and> onRequest \<lparr>resourceType = ''document'', req_url = ''https://www.facebook.com/''\<rparr> = Abort"
  using plainURL_facebook facebook_public facebook_not_suspicious facebook_aborted
  by (simp add: validateUrl_def validateUrl_try_def urlOnly_def)

section \<open>Screenshot options\<close>

text \<open>
  C8, amended. In the first variant the options of every screenshot call of a run are
  \<open>screenshotOptions\<close> of the validated parameters, a run that replies with an image has
  made such a call, and these options carry \<open>omitBackground\<close> set exactly when the format
  is \<open>png\<close> and the requested quality exactly when the format is \<open>jpeg\<close> or \<open>webp\<close>.
  In the second variant the same holds for the quality, but the options never carry
  \<open>omitBackground\<close>, whatever the format.
\<close>

theorem screenshot_options_by_variant:
  "omitBackground (screenshotOptions p) = Some (format p = ''png'')
   \<and> shot_quality (screenshotOptions p) =
       (if format p = ''jpeg'' \<or> format p = ''webp'' then Some (Some (quality p)) else None)
   \<and> list_all (shotsUse (screenshotOptions p)) (trace (handler e u p sel))
   \<and> (sent (handler e u p sel) = Some (Image ct img) \<longrightarrow>
        list_ex (isShot (screenshotOptions p)) (trace (handler e u p sel)))
   \<and> omitBackground (screenshotOptions_p q n) = None
   \<and> shot_quality (screenshotOptions_p q n) =
       (if orDefault (q_format q) ''png'' = ''jpeg'' \<or> orDefault (q_format q) ''png'' = ''webp''
        then Some (qualityNum n) else None)
   \<and> (validate_p q = Inr n \<longrightarrow>
        list_all (shotsUse (screenshotOptions_p q n)) (trace (handler_p e u q)))
   \<and> (validate_p q = Inr n \<and> sent (handler_p e u q) = Some (Image ct img) \<longrightarrow>
        list_ex (isShot (screenshotOptions_p q n)) (trace (handler_p e u q)))"
  using handler_shots [of p e u sel] handler_image_shot [of e u p sel ct img]
    handler_p_shots [of q n e u] handler_p_image_shot [of q n e u ct img]
  by (simp add: screenshotOptions_def screenshotOptions_p_def)

lemma run_cooperative:
  "handler cooperative ''https://example.com/'' defaultParams None =
     \<lparr>sent = Some (Image ''image/png'' ''page''),
      trace = [Launch, NewPage, SetDefaultTimeout 15000, SetDefaultNavigationTimeout 15000,
               SetViewport (viewportOf defaultParams), SetUserAgent desktopUserAgent,
               SetRequestInterception, OnRequest, Goto ''https://example.com/'' primaryOpts,
               Evaluate, PageScreenshot (screenshotOptions defaultParams), PageClose,
               BrowserClose]\<rparr>"
  by (simp add: handler_def tryBody_def step_defs act_defs cooperative_def defaultParams_def
      header_example)

lemma run_cooperative_p:
  "handler_p cooperative ''https://example.com/'' (urlOnly ''https://example.com/'') =
     \<lparr>sent = Some (Image ''image/png'' ''page''),
      trace = [Launch, NewPage,
               SetViewport (viewportOf_p (urlOnly ''https://example.com/'') defaultNums),
               SetUserAgent desktopUserAgent_p, Goto ''https://example.com/'' gotoOpts_p,
               PageScreenshot (screenshotOptions_p (urlOnly ''https://example.com/'') defaultNums),
               BrowserClose]\<rparr>"
  by (simp add: handler_p_def validate_p_urlOnly tryBody_p_def step_p_defs act_defs
      cooperative_def defaultNums_def header_example) (simp add: urlOnly_def)

theorem screenshot_options_by_variant_witness:
  "sent (handler cooperative ''https://example.com/'' defaultParams None) =
     Some (Image ''image/png'' ''page'')
   \<and> list_ex (isShot (screenshotOptions defaultParams))
        (trace (handler cooperative ''https://example.com/'' defaultParams None))
   \<and> omitBackground (screenshotOptions defaultParams) = Some True
   \<and> validate_p (urlOnly ''https://example.com/'') = Inr defaultNums
   \<and> sent (handler_p cooperative ''https://example.com/'' (urlOnly ''https://example.com/'')) =
     Some (Image ''image/png'' ''page'')
   \<and> list_ex (isShot (screenshotOptions_p (urlOnly ''https://example.com/'') defaultNums))
        (trace (handler_p cooperative ''https://example.com/'' (urlOnly ''https://example.com/'')))
   \<and> list_all (shotsUse (screenshotOptions_p (urlOnly ''https://example.com/'') defaultNums))
        (trace (handler_p cooperative ''https://example.com/'' (urlOnly ''https://example.com/'')))"
proof -
  have a: "sent (handler cooperative ''https://example.com/'' defaultParams None) =
             Some (Image ''image/png'' ''page'')"
    by (simp add: run_cooperative)
  have b: "sent (handler_p cooperative ''https://example.com/'' (urlOnly ''https://example.com/'')) =
             Some (Image ''image/png'' ''page'')"
    by (simp add: run_cooperative_p)
  have c: "format defaultParams = ''png''"
    by (simp add: defaultParams_def)
  note v = validate_p_urlOnly [of "''https://example.com/''"]
  from screenshot_options_by_variant [where p = defaultParams and e = cooperative
      and u = "''https://example.com/''" and sel = None and ct = "''image/png''"
      and img = "''page''" and q = "urlOnly ''https://example.com/''" and n = defaultNums]
    a b c v
  show ?thesis
    by simp
qed

text \<open>
  C8, as stated, fails in the second variant: a capture in the format \<open>png\<close> succeeds
  with screenshot options that have no \<open>omitBackground\<close> key, so the background is kept.
\<close>

theorem png_background_counterexample:
  "screenshotRoute_p plainURL cooperative (urlOnly ''https://example.com/'') =
     \<lparr>sent = Some (Image ''image/png'' ''page''),
      trace = [Launch, NewPage,
               SetViewport \<lparr>vp_width = Some 1920, vp_height = Some 1080, isMobile = False,
                            deviceScaleFactor = 1, hasTouch = None\<rparr>,
               SetUserAgent desktopUserAgent_p,
               Goto ''https://example.com/'' \<lparr>waitUntil = [''networkidle2''], timeout = 30000\<rparr>,
               PageScreenshot \<lparr>shot_type = ''png'', shot_fullPage = False, omitBackground = None,
                               captureBeyondViewport = None, clipNull = False,
                               shot_quality = None\<rparr>,
               BrowserClose]\<rparr>"
proof -
  have u: "validateUrl_p plainURL (urlOnly ''https://example.com/'') = Inr ''https://example.com/''"
    by (simp add: validateUrl_p_def urlOnly_def plainURL_example)
  show ?thesis
    by (simp add: screenshotRoute_p_def u run_cooperative_p)
      (simp add: viewportOf_p_def screenshotOptions_p_def gotoOpts_p_def urlOnly_def
        defaultNums_def truthy_def)
qed
section \<open>Reply headers\<close>

text \<open>
  A URL that holds a line feed is refused as a header value: both handlers take the
  screenshot, \<open>res.set\<close> throws, and the reply is the 500 of the \<open>catch\<close> block.
\<close>

lemma lineFeedUrl_refused: "\<not> validHeaderValue lineFeedUrl"
  by code_simp

lemma classify_invalidHeader:
  "classify invalidHeader = (500, ''Failed to capture screenshot'')"
  "classify_p invalidHeader =
     \<lparr>status = 500, error = ''Failed to capture screenshot'', message = Some invalidHeader\<rparr>"
  by code_simp+

lemma refused_header_reply:
  "sent (handler cooperative lineFeedUrl defaultParams None) =
     Some (Json \<lparr>status = 500, error = ''Failed to capture screenshot'',
                 message = Some invalidHeader\<rparr>)"
  "PageScreenshot (screenshotOptions defaultParams) \<in>
     set (trace (handler cooperative lineFeedUrl defaultParams None))"
  "sent (handler_p cooperative lineFeedUrl (urlOnly lineFeedUrl)) =
     Some (Json \<lparr>status = 500, error = ''Failed to capture screenshot'',
                 message = Some invalidHeader\<rparr>)"
  using lineFeedUrl_refused
  by (simp_all add: handler_def handler_p_def validate_p_urlOnly tryBody_def tryBody_p_def
      step_defs step_p_defs act_defs cooperative_def defaultParams_def classify_invalidHeader)

section \<open>The selector\<close>

lemma capture_first_call:
  assumes "sel \<noteq> []"
  shows "\<exists>t. events (snd (capture e opts (Some sel) st)) = events st @ WaitForSelector sel 5000 # t"
  using assms
  by (auto simp: capture_def truthy_def Let_def act_defs split: sum.splits)

lemma capture_p_first_call:
  assumes "sel \<noteq> []"
  shows "\<exists>t. events (snd (capture_p e opts (Some sel) st)) = events st @ QuerySelector sel # t"
  using assms
  by (auto simp: capture_p_def truthy_def Let_def act_defs split: sum.splits)

lemma cooperative_run_selector:
  "list_ex (isShot (screenshotOptions p)) (trace (handler cooperative u p s))"
  "validHeaderValue u \<Longrightarrow> \<exists>ct img. sent (handler cooperative u p s) = Some (Image ct img)"
  "Launch \<in> set (trace (handler cooperative u p s))"
  "truthy s \<Longrightarrow> WaitForSelector (the s) 5000 \<in> set (trace (handler cooperative u p s))"
  "\<not> truthy s \<Longrightarrow> PageScreenshot (screenshotOptions p) \<in> set (trace (handler cooperative u p s))"
  by (simp_all add: handler_def tryBody_def step_defs act_defs cooperative_def Let_def isShot_def)

lemma cooperative_run_selector_p:
  assumes "validate_p q = Inr n"
  shows "list_ex (isShot (screenshotOptions_p (q\<lparr>q_selector := s\<rparr>) n))
           (trace (handler_p cooperative u (q\<lparr>q_selector := s\<rparr>)))"
  "validHeaderValue u \<Longrightarrow>
     \<exists>ct img. sent (handler_p cooperative u (q\<lparr>q_selector := s\<rparr>)) = Some (Image ct img)"
  "Launch \<in> set (trace (handler_p cooperative u (q\<lparr>q_selector := s\<rparr>)))"
  "truthy s \<Longrightarrow> QuerySelector (the s) \<in> set (trace (handler_p cooperative u (q\<lparr>q_selector := s\<rparr>)))"
proof -
  have "validate_p (q\<lparr>q_selector := s\<rparr>) = validate_p q"
    by (simp add: validate_p_def Let_def)
  with assms have v: "validate_p (q\<lparr>q_selector := s\<rparr>) = Inr n"
    by simp
  show "list_ex (isShot (screenshotOptions_p (q\<lparr>q_selector := s\<rparr>) n))
           (trace (handler_p cooperative u (q\<lparr>q_selector := s\<rparr>)))"
    "validHeaderValue u \<Longrightarrow>
       \<exists>ct img. sent (handler_p cooperative u (q\<lparr>q_selector := s\<rparr>)) = Some (Image ct img)"
    "Launch \<in> set (trace (handler_p cooperative u (q\<lparr>q_selector := s\<rparr>)))"
    "truthy s \<Longrightarrow> QuerySelector (the s) \<in> set (trace (handler_p cooperative u (q\<lparr>q_selector := s\<rparr>)))"
    by (simp_all add: handler_p_def v tryBody_p_def step_p_defs act_defs cooperative_def Let_def
        isShot_def)
qed

text \<open>
  C9. No validator reads the selector: the results of \<open>validateUrl\<close> and
  \<open>validateParams\<close>, and of the URL check and the inline validation of the second
  variant, are the same whatever the selector is, and the routes hand the raw value to
  the handlers. Every selector, the empty string included, then comes to the browser
  session and to the capture: with a browser in which every call resolves the run
  launches the browser and takes a screenshot, and it replies with the image when the
  URL is accepted as the value of the header \<open>X-Screenshot-URL\<close>. A non-empty selector
  is passed as it is to \<open>page.waitForSelector\<close> (first variant) or \<open>page.$\<close> (second
  variant), the first call of the capture stage; an empty or absent one is falsy in
  \<open>if (selector)\<close> and the whole page is captured.
\<close>

theorem selector_unvalidated:
  "validateUrl newURL production (q\<lparr>q_selector := s\<rparr>) = validateUrl newURL production q
   \<and> validateParams (q\<lparr>q_selector := s\<rparr>) = validateParams q
   \<and> validateUrl_p newURL (q\<lparr>q_selector := s\<rparr>) = validateUrl_p newURL q
   \<and> validate_p (q\<lparr>q_selector := s\<rparr>) = validate_p q
   \<and> (validateUrl newURL production q = Inr u \<and> validateParams q = Inr p \<longrightarrow>
        screenshotRoute newURL production e (q\<lparr>q_selector := s\<rparr>) = handler e u p s)
   \<and> (validateUrl_p newURL q = Inr u \<longrightarrow>
        screenshotRoute_p newURL e (q\<lparr>q_selector := s\<rparr>) = handler_p e u (q\<lparr>q_selector := s\<rparr>))
   \<and> list_ex (isShot (screenshotOptions p)) (trace (handler cooperative u p s))
   \<and> (validHeaderValue u \<longrightarrow> (\<exists>ct img. sent (handler cooperative u p s) = Some (Image ct img)))
   \<and> Launch \<in> set (trace (handler cooperative u p s))
   \<and> (truthy s \<longrightarrow> WaitForSelector (the s) 5000 \<in> set (trace (handler cooperative u p s)))
   \<and> (\<not> truthy s \<longrightarrow> PageScreenshot (screenshotOptions p) \<in> set (trace (handler cooperative u p s)))
   \<and> (validate_p q = Inr n \<longrightarrow>
        list_ex (isShot (screenshotOptions_p (q\<lparr>q_selector := s\<rparr>) n))
          (trace (handler_p cooperative u (q\<lparr>q_selector := s\<rparr>)))
        \<and> (validHeaderValue u \<longrightarrow>
             (\<exists>ct img. sent (handler_p cooperative u (q\<lparr>q_selector := s\<rparr>)) = Some (Image ct img)))
        \<and> Launch \<in> set (trace (handler_p cooperative u (q\<lparr>q_selector := s\<rparr>)))
        \<and> (truthy s \<longrightarrow>
             QuerySelector (the s) \<in> set (trace (handler_p cooperative u (q\<lparr>q_selector := s\<rparr>)))))
   \<and> (truthy s \<longrightarrow>
        (\<exists>t. events (snd (capture e opts s st)) = events st @ WaitForSelector (the s) 5000 # t)
        \<and> (\<exists>t. events (snd (capture_p e opts s st)) = events st @ QuerySelector (the s) # t))"
proof -
  have a: "validateUrl newURL production (q\<lparr>q_selector := s\<rparr>) = validateUrl newURL production q"
    by (simp add: validateUrl_def)
  have b: "validateParams (q\<lparr>q_selector := s\<rparr>) = validateParams q"
    by (simp add: validateParams_def validateParams_try_def Let_def)
  have c: "validateUrl_p newURL (q\<lparr>q_selector := s\<rparr>) = validateUrl_p newURL q"
    by (simp add: validateUrl_p_def)
  have d: "validate_p (q\<lparr>q_selector := s\<rparr>) = validate_p q"
    by (simp add: validate_p_def Let_def)
  have r: "validateUrl newURL production q = Inr u \<and> validateParams q = Inr p \<longrightarrow>
        screenshotRoute newURL production e (q\<lparr>q_selector := s\<rparr>) = handler e u p s"
    by (simp add: screenshotRoute_def a b)
  have rp: "validateUrl_p newURL q = Inr u \<longrightarrow>
        screenshotRoute_p newURL e (q\<lparr>q_selector := s\<rparr>) = handler_p e u (q\<lparr>q_selector := s\<rparr>)"
    by (simp add: screenshotRoute_p_def c)
  have cap: "truthy s \<longrightarrow>
        (\<exists>t. events (snd (capture e opts s st)) = events st @ WaitForSelector (the s) 5000 # t)
        \<and> (\<exists>t. events (snd (capture_p e opts s st)) = events st @ QuerySelector (the s) # t)"
  proof
    assume "truthy s"
    then obtain sel where "s = Some sel" "sel \<noteq> []"
      by (cases s) (auto simp: truthy_def)
    then show "(\<exists>t. events (snd (capture e opts s st)) = events st @ WaitForSelector (the s) 5000 # t)
        \<and> (\<exists>t. events (snd (capture_p e opts s st)) = events st @ QuerySelector (the s) # t)"
      using capture_first_call [of sel e opts st] capture_p_first_call [of sel e opts st] by simp
  qed
  show ?thesis
    using a b c d r rp cap cooperative_run_selector [where u = u and p = p and s = s]
      cooperative_run_selector_p [where q = q and n = n and u = u and s = s]
    by blast
qed

lemma truthy_header: "truthy (Some ''.header'')" "\<not> truthy (Some '''')"
  by (simp_all add: truthy_def)

theorem selector_unvalidated_witness:
  "validateUrl plainURL True (urlOnly ''https://example.com/'') = Inr ''https://example.com/''
   \<and> validateParams (urlOnly ''https://example.com/'') = Inr defaultParams
   \<and> validate_p (urlOnly ''https://example.com/'') = Inr defaultNums
   \<and> validateUrl_p plainURL (urlOnly ''https://example.com/'') = Inr ''https://example.com/''
   \<and> truthy (Some ''.header'')
   \<and> validHeaderValue ''https://example.com/''
   \<and> (\<exists>ct img. sent (handler cooperative ''https://example.com/'' defaultParams (Some ''.header''))
         = Some (Image ct img))
   \<and> (\<exists>ct img. sent (handler_p cooperative ''https://example.com/''
               ((urlOnly ''https://example.com/'')\<lparr>q_selector := Some ''.header''\<rparr>))
         = Some (Image ct img))
   \<and> screenshotRoute plainURL True cooperative
        ((urlOnly ''https://example.com/'')\<lparr>q_selector := Some ''.header''\<rparr>) =
       handler cooperative ''https://example.com/'' defaultParams (Some ''.header'')
   \<and> WaitForSelector ''.header'' 5000 \<in>
        set (trace (handler cooperative ''https://example.com/'' defaultParams (Some ''.header'')))
   \<and> QuerySelector ''.header'' \<in>
        set (trace (handler_p cooperative ''https://example.com/''
               ((urlOnly ''https://example.com/'')\<lparr>q_selector := Some ''.header''\<rparr>)))"
proof -
  note a = validateUrl_example [of True]
  note c = validateUrl_p_example
  note b = validateParams_urlOnly [of "''https://example.com/''"]
  note d = validate_p_urlOnly [of "''https://example.com/''"]
  from selector_unvalidated [where newURL = plainURL and production = True
      and q = "urlOnly ''https://example.com/''" and s = "Some ''.header''"
      and u = "''https://example.com/''" and p = defaultParams and e = cooperative
      and n = defaultNums]
    a b c d truthy_header header_example
  show ?thesis
    by simp
qed

section \<open>Navigation\<close>

lemma navigate_ok:
  "goto e u primaryOpts = Inr () \<Longrightarrow>
   navigate e u s = (Inr (), s\<lparr>events := events s @ [Goto u primaryOpts]\<rparr>)"
  by (simp add: navigate_def act_defs)

lemma navigate_fallback:
  "goto e u primaryOpts = Inl m \<Longrightarrow>
   navigate e u s =
     (goto e u fallbackOpts, s\<lparr>events := events s @ [Goto u primaryOpts, Goto u fallbackOpts]\<rparr>)"
  by (simp add: navigate_def act_defs)

lemma navigate_p_once:
  "navigate_p e u s = (goto e u gotoOpts_p, s\<lparr>events := events s @ [Goto u gotoOpts_p]\<rparr>)"
  by (simp add: navigate_p_def act_defs)

lemma both_fail_reply:
  assumes "g u primaryOpts = Inl m1" "g u fallbackOpts = Inl m2"
  shows "sent (handler (cooperative\<lparr>goto := g\<rparr>) u p sel) =
           Some (Json \<lparr>status = fst (classify m2), error = snd (classify m2), message = Some m2\<rparr>)"
    and "filter isGoto (trace (handler (cooperative\<lparr>goto := g\<rparr>) u p sel)) =
           [Goto u primaryOpts, Goto u fallbackOpts]"
  using assms
  by (simp_all add: handler_def tryBody_def step_defs act_defs cooperative_def isGoto_def)

lemma primary_ok_gotos:
  assumes "g u primaryOpts = Inr ()"
  shows "filter isGoto (trace (handler (cooperative\<lparr>goto := g\<rparr>) u p sel)) = [Goto u primaryOpts]"
  using assms
  by (cases "validHeaderValue u")
    (simp_all add: handler_def tryBody_def step_defs act_defs cooperative_def isGoto_def Let_def)

text \<open>
  C6, amended. In the first variant the navigation makes a primary attempt that waits for
  \<open>domcontentloaded\<close> and \<open>networkidle2\<close> with a timeout of 15000 ms; if it resolves
  there is no other attempt; if it rejects there is exactly one fallback attempt, which
  waits for \<open>domcontentloaded\<close> only with the shorter timeout of 10000 ms, and the
  outcome of the fallback is the outcome of the navigation: when both reject, the
  reply carries the message of the fallback's error. The second variant makes a single
  attempt that waits for \<open>networkidle2\<close> with a timeout of 30000 ms and has no fallback.
\<close>

theorem navigation_by_variant:
  "waitUntil primaryOpts = [''domcontentloaded'', ''networkidle2'']
   \<and> timeout primaryOpts = 15000
   \<and> waitUntil fallbackOpts = [''domcontentloaded'']
   \<and> timeout fallbackOpts = 10000
   \<and> timeout fallbackOpts < timeout primaryOpts
   \<and> (goto e u primaryOpts = Inr () \<longrightarrow>
        navigate e u s = (Inr (), s\<lparr>events := events s @ [Goto u primaryOpts]\<rparr>))
   \<and> (goto e u primaryOpts = Inl m \<longrightarrow>
        navigate e u s =
          (goto e u fallbackOpts,
           s\<lparr>events := events s @ [Goto u primaryOpts, Goto u fallbackOpts]\<rparr>))
   \<and> (g u primaryOpts = Inr () \<longrightarrow>
        filter isGoto (trace (handler (cooperative\<lparr>goto := g\<rparr>) u p sel)) = [Goto u primaryOpts])
   \<and> (g u primaryOpts = Inl m1 \<and> g u fallbackOpts = Inl m2 \<longrightarrow>
        filter isGoto (trace (handler (cooperative\<lparr>goto := g\<rparr>) u p sel)) =
          [Goto u primaryOpts, Goto u fallbackOpts]
        \<and> sent (handler (cooperative\<lparr>goto := g\<rparr>) u p sel) =
          Some (Json \<lparr>status = fst (classify m2), error = snd (classify m2), message = Some m2\<rparr>))
   \<and> navigate_p e u s = (goto e u gotoOpts_p, s\<lparr>events := events s @ [Goto u gotoOpts_p]\<rparr>)
   \<and> waitUntil gotoOpts_p = [''networkidle2'']
   \<and> timeout gotoOpts_p = 30000"
  using navigate_ok [of e u s] navigate_fallback [of e u m s] navigate_p_once [of e u s]
    both_fail_reply [of g u m1 m2 p sel] primary_ok_gotos [of g u p sel]
  by (simp add: primaryOpts_def fallbackOpts_def gotoOpts_p_def)

lemma classify_refused:
  "classify ''net::ERR_CONNECTION_REFUSED at https://example.com/'' =
     (400, ''Connection refused by target website'')"
  by code_simp

theorem navigation_by_variant_witness:
  "resetThenRefused ''https://example.com/'' primaryOpts =
     Inl ''net::ERR_CONNECTION_RESET at https://example.com/''
   \<and> resetThenRefused ''https://example.com/'' fallbackOpts =
     Inl ''net::ERR_CONNECTION_REFUSED at https://example.com/''
   \<and> filter isGoto (trace (handler (cooperative\<lparr>goto := resetThenRefused\<rparr>)
         ''https://example.com/'' defaultParams None)) =
       [Goto ''https://example.com/'' primaryOpts, Goto ''https://example.com/'' fallbackOpts]
   \<and> sent (handler (cooperative\<lparr>goto := resetThenRefused\<rparr>)
         ''https://example.com/'' defaultParams None) =
       Some (Json \<lparr>status = 400, error = ''Connection refused by target website'',
                   message = Some ''net::ERR_CONNECTION_REFUSED at https://example.com/''\<rparr>)"
proof -
  have a: "resetThenRefused ''https://example.com/'' primaryOpts =
     Inl ''net::ERR_CONNECTION_RESET at https://example.com/''"
    by (simp add: resetThenRefused_def)
  have b: "resetThenRefused ''https://example.com/'' fallbackOpts =
     Inl ''net::ERR_CONNECTION_REFUSED at https://example.com/''"
    by (simp add: resetThenRefused_def primaryOpts_def fallbackOpts_def)
  from navigation_by_variant [where g = resetThenRefused and u = "''https://example.com/''"
      and ?m1.0 = "''net::ERR_CONNECTION_RESET at https://example.com/''"
      and ?m2.0 = "''net::ERR_CONNECTION_REFUSED at https://example.com/''"
      and p = defaultParams and sel = None]
    a b classify_refused
  show ?thesis
    by simp
qed

text \<open>
  C6, as stated, fails in the second variant: when the page load fails there is one
  \<open>goto\<close> call in the whole run, waiting for \<open>networkidle2\<close> only, and no fallback.
\<close>

theorem single_navigation_counterexample:
  "filter isGoto (trace (screenshotRoute_p plainURL (cooperative\<lparr>goto := resetThenRefused\<rparr>)
       (urlOnly ''https://example.com/''))) =
     [Goto ''https://example.com/'' \<lparr>waitUntil = [''networkidle2''], timeout = 30000\<rparr>]
   \<and> sent (screenshotRoute_p plainURL (cooperative\<lparr>goto := resetThenRefused\<rparr>)
       (urlOnly ''https://example.com/'')) =
     Some (Json \<lparr>status = 500, error = ''Failed to capture screenshot'',
                 message = Some ''net::ERR_CONNECTION_REFUSED at https://example.com/''\<rparr>)"
proof -
  have u: "validateUrl_p plainURL (urlOnly ''https://example.com/'') = Inr ''https://example.com/''"
    by (simp add: validateUrl_p_def urlOnly_def plainURL_example)
  have g: "resetThenRefused ''https://example.com/'' gotoOpts_p =
     Inl ''net::ERR_CONNECTION_REFUSED at https://example.com/''"
    by (simp add: resetThenRefused_def primaryOpts_def gotoOpts_p_def)
  have c: "classify_p ''net::ERR_CONNECTION_REFUSED at https://example.com/'' =
     \<lparr>status = 500, error = ''Failed to capture screenshot'',
      message = Some ''net::ERR_CONNECTION_REFUSED at https://example.com/''\<rparr>"
    by code_simp
  have h: "handler_p (cooperative\<lparr>goto := resetThenRefused\<rparr>) ''https://example.com/''
             (urlOnly ''https://example.com/'') =
     \<lparr>sent = Some (Json (classify_p ''net::ERR_CONNECTION_REFUSED at https://example.com/'')),
      trace = [Launch, NewPage,
               SetViewport (viewportOf_p (urlOnly ''https://example.com/'') defaultNums),
               SetUserAgent desktopUserAgent_p, Goto ''https://example.com/'' gotoOpts_p,
               BrowserClose]\<rparr>"
    using g
    by (simp add: handler_p_def validate_p_urlOnly tryBody_p_def step_p_defs act_defs
        cooperative_def defaultNums_def) (simp add: urlOnly_def)
  show ?thesis
    by (simp add: screenshotRoute_p_def u h c isGoto_def gotoOpts_p_def)
qed

section \<open>A selector that matches nothing\<close>

text \<open>
  The reply of the first variant when \<open>page.waitForSelector\<close> rejects, and when it
  resolves but \<open>page.$\<close> yields \<open>null\<close>.
\<close>

lemma wait_fails_reply:
  assumes "sel \<noteq> []" "w sel = Inl m"
  shows "sent (handler (cooperative\<lparr>waitForSelector := w\<rparr>) u p (Some sel)) =
           Some (Json \<lparr>status = fst (classify (wrapped sel m)),
                       error = snd (classify (wrapped sel m)),
                       message = Some (wrapped sel m)\<rparr>)"
  using assms
  by (simp add: handler_def tryBody_def step_defs act_defs cooperative_def Let_def)

lemma null_element_reply:
  assumes "sel \<noteq> []"
  shows "sent (handler (cooperative\<lparr>querySelector := (\<lambda>_. Inr False)\<rparr>) u p (Some sel)) =
           Some (Json \<lparr>status = fst (classify (wrapped sel (notFound sel))),
                       error = snd (classify (wrapped sel (notFound sel))),
                       message = Some (wrapped sel (notFound sel))\<rparr>)"
  using assms
  by (simp add: handler_def tryBody_def step_defs act_defs cooperative_def Let_def)

lemma classify_wait_failed:
  "classify (wrapped ''.does-not-exist'' (waitFailed ''.does-not-exist'')) =
     (500, ''Failed to capture screenshot'')"
  by code_simp

lemma classify_wait_failed_old:
  "classify (wrapped ''.does-not-exist'' (waitFailedOld ''.does-not-exist'')) =
     (408, ''Website took too long to load'')"
  by code_simp

lemma classify_null_element:
  "fst (classify (wrapped ''.does-not-exist'' (notFound ''.does-not-exist''))) = 400"
  by code_simp

lemma classify_p_not_found:
  "status (classify_p (notFound ''.does-not-exist'')) = 500"
  by code_simp

text \<open>
  Only the path on which the wait succeeds and the element is \<open>null\<close> all the same
  reaches the 400 branch of the classifier.
\<close>

lemma null_element_status:
  "map_option statusOf
     (sent (handler (cooperative\<lparr>querySelector := (\<lambda>_. Inr False)\<rparr>) ''https://example.com/''
        defaultParams (Some ''.does-not-exist''))) = Some 400"
  using null_element_reply [of "''.does-not-exist''" "''https://example.com/''" defaultParams]
    classify_null_element
  by (simp add: statusOf_def)

text \<open>
  C2 at the failing input \<open>selector=.does-not-exist\<close> on a page that loads: in the
  first variant \<open>page.waitForSelector\<close> rejects after 5000 ms, the error is wrapped
  into \<open>Failed to find or screenshot element ...\<close>, and the classifier answers 500
  (408 with the message of older Puppeteer releases, which contains \<open>timeout\<close>); in
  the second variant \<open>page.$\<close> yields \<open>null\<close> and the reply is 500.
\<close>

theorem missing_element_status:
  "map_option statusOf
     (sent (handler (cooperative\<lparr>waitForSelector := (\<lambda>sel. Inl (waitFailed sel))\<rparr>)
        ''https://example.com/'' defaultParams (Some ''.does-not-exist''))) = Some 500
   \<and> map_option statusOf
     (sent (handler (cooperative\<lparr>waitForSelector := (\<lambda>sel. Inl (waitFailedOld sel))\<rparr>)
        ''https://example.com/'' defaultParams (Some ''.does-not-exist''))) = Some 408
   \<and> map_option statusOf
     (sent (screenshotRoute_p plainURL (cooperative\<lparr>querySelector := (\<lambda>_. Inr False)\<rparr>)
        ((urlOnly ''https://example.com/'')\<lparr>q_selector := Some ''.does-not-exist''\<rparr>))) = Some 500"
proof -
  have ne: "''.does-not-exist'' \<noteq> []"
    by simp
  have a: "map_option statusOf
     (sent (handler (cooperative\<lparr>waitForSelector := (\<lambda>sel. Inl (waitFailed sel))\<rparr>)
        ''https://example.com/'' defaultParams (Some ''.does-not-exist''))) = Some 500"
    using wait_fails_reply [where w = "\<lambda>sel. Inl (waitFailed sel)"
        and m = "waitFailed ''.does-not-exist''" and u = "''https://example.com/''"
        and p = defaultParams, OF ne refl] classify_wait_failed
    by (simp add: statusOf_def)
  have b: "map_option statusOf
     (sent (handler (cooperative\<lparr>waitForSelector := (\<lambda>sel. Inl (waitFailedOld sel))\<rparr>)
        ''https://example.com/'' defaultParams (Some ''.does-not-exist''))) = Some 408"
    using wait_fails_reply [where w = "\<lambda>sel. Inl (waitFailedOld sel)"
        and m = "waitFailedOld ''.does-not-exist''" and u = "''https://example.com/''"
        and p = defaultParams, OF ne refl] classify_wait_failed_old
    by (simp add: statusOf_def)
  have u: "validateUrl_p plainURL ((urlOnly ''https://example.com/'')\<lparr>q_selector := Some ''.does-not-exist''\<rparr>)
             = Inr ''https://example.com/''"
    by (simp add: validateUrl_p_def urlOnly_def plainURL_example)
  have v: "validate_p ((urlOnly ''https://example.com/'')\<lparr>q_selector := Some ''.does-not-exist''\<rparr>)
             = Inr defaultNums"
    by (simp add: validate_p_def urlOnly_def defaultNums_def parseInt_defaults Let_def)
  have h: "sent (handler_p (cooperative\<lparr>querySelector := (\<lambda>_. Inr False)\<rparr>) ''https://example.com/''
             ((urlOnly ''https://example.com/'')\<lparr>q_selector := Some ''.does-not-exist''\<rparr>)) =
           Some (Json (classify_p (notFound ''.does-not-exist'')))"
    by (simp add: handler_p_def v tryBody_p_def step_p_defs act_defs cooperative_def defaultNums_def
        Let_def)
      (simp add: urlOnly_def)?
  have c: "map_option statusOf
     (sent (screenshotRoute_p plainURL (cooperative\<lparr>querySelector := (\<lambda>_. Inr False)\<rparr>)
        ((urlOnly ''https://example.com/'')\<lparr>q_selector := Some ''.does-not-exist''\<rparr>))) = Some 500"
    using classify_p_not_found by (simp add: screenshotRoute_p_def u h statusOf_def)
  from a b c show ?thesis
    by blast
qed

section \<open>Launch and release\<close>

text \<open>
  Every run of the first handler calls the launch exactly once, and calls
  \<open>browser.close()\<close> once when the launch resolved before the race timer and
  \<open>page.close()\<close>, if there is a page, did not reject; otherwise it never calls it.
\<close>

lemma handler_leaks_iff:
  "leaked e (handler e u p sel) \<longleftrightarrow>
     launchResult e = Inr () \<and> (launchLate e \<or> (newPage e = Inr () \<and> pageClose e \<noteq> Inr ()))"
proof -
  have l: "Launch \<in> set (trace (handler e u p sel))"
    using handler_launches_once [of e u p sel] count_list_0_iff [of "trace (handler e u p sel)" Launch]
    by auto
  have c: "BrowserClose \<notin> set (trace (handler e u p sel)) \<longleftrightarrow>
             \<not> (\<not> launchLate e \<and> launchResult e = Inr () \<and> (newPage e = Inr () \<longrightarrow> pageClose e = Inr ()))"
    using handler_closes [of e u p sel]
      count_list_0_iff [of "trace (handler e u p sel)" BrowserClose]
    by (auto split: if_splits)
  show ?thesis
    unfolding leaked_def browserStarted_def using l c by blast
qed

lemma launch_failure_no_leak:
  "launchResult e = Inl m \<Longrightarrow> \<not> leaked e (handler e u p sel)"
  by (simp add: handler_leaks_iff)

text \<open>
  The second handler awaits the launch without a race and closes the browser it got on
  every path.
\<close>

lemma handler_p_no_leak: "\<not> leaked e (handler_p e u q)"
proof (cases "validate_p q")
  case (Inl r)
  then show ?thesis
    by (simp add: handler_p_rejected_trace leaked_def)
next
  case (Inr n)
  from handler_p_closes [OF Inr, of e u]
    count_list_0_iff [of "trace (handler_p e u q)" BrowserClose]
  show ?thesis
    by (auto simp: leaked_def browserStarted_def split: if_splits)
qed

lemma classify_launch_timeout:
  "classify ''Browser launch timeout'' = (408, ''Website took too long to load'')"
  by code_simp

text \<open>
  C1 at the failing input: a valid request whose browser launch resolves only after the
  10 s timer of the launch race. The race rejects with \<open>Browser launch timeout\<close>, the
  variable \<open>browser\<close> stays \<open>null\<close>, the \<open>finally\<close> block closes nothing, and the
  browser that \<open>getBrowser()\<close> brings up afterwards is left running. The same block
  also skips \<open>browser.close()\<close> when \<open>page.close()\<close> rejects.
\<close>

theorem late_launch_leaks_browser:
  "handler (cooperative\<lparr>launchLate := True\<rparr>) ''https://example.com/'' defaultParams None =
     \<lparr>sent = Some (Json \<lparr>status = 408, error = ''Website took too long to load'',
                          message = Some ''Browser launch timeout''\<rparr>),
      trace = [Launch]\<rparr>
   \<and> browserStarted (cooperative\<lparr>launchLate := True\<rparr>)
   \<and> leaked (cooperative\<lparr>launchLate := True\<rparr>)
        (handler (cooperative\<lparr>launchLate := True\<rparr>) ''https://example.com/'' defaultParams None)
   \<and> sent (handler (cooperative\<lparr>pageClose := Inl ''Protocol error: Target closed''\<rparr>)
        ''https://example.com/'' defaultParams None) = Some (Image ''image/png'' ''page'')
   \<and> leaked (cooperative\<lparr>pageClose := Inl ''Protocol error: Target closed''\<rparr>)
        (handler (cooperative\<lparr>pageClose := Inl ''Protocol error: Target closed''\<rparr>)
           ''https://example.com/'' defaultParams None)"
proof -
  have a: "handler (cooperative\<lparr>launchLate := True\<rparr>) ''https://example.com/'' defaultParams None =
     \<lparr>sent = Some (Json \<lparr>status = fst (classify ''Browser launch timeout''),
                          error = snd (classify ''Browser launch timeout''),
                          message = Some ''Browser launch timeout''\<rparr>),
      trace = [Launch]\<rparr>"
    by (simp add: handler_def tryBody_def step_defs act_defs cooperative_def)
  have b: "browserStarted (cooperative\<lparr>launchLate := True\<rparr>)"
    by (simp add: browserStarted_def cooperative_def)
  have c: "handler (cooperative\<lparr>pageClose := Inl ''Protocol error: Target closed''\<rparr>)
        ''https://example.com/'' defaultParams None =
     \<lparr>sent = Some (Image ''image/png'' ''page''),
      trace = [Launch, NewPage, SetDefaultTimeout 15000, SetDefaultNavigationTimeout 15000,
               SetViewport (viewportOf defaultParams), SetUserAgent desktopUserAgent,
               SetRequestInterception, OnRequest, Goto ''https://example.com/'' primaryOpts,
               Evaluate, PageScreenshot (screenshotOptions defaultParams), PageClose]\<rparr>"
    by (simp add: handler_def tryBody_def step_defs act_defs cooperative_def defaultParams_def
        header_example)
  have d: "browserStarted (cooperative\<lparr>pageClose := Inl ''Protocol error: Target closed''\<rparr>)"
    by (simp add: browserStarted_def cooperative_def)
  show ?thesis
    unfolding a c leaked_def using b d
    by (simp add: classify_launch_timeout)
qed
end
